theory Spec2Isabelle
  imports Complex_Main
begin

section \<open>JavaScript values\<close>

text \<open>
  The adapter of \<^verbatim>\<open>src/mastra/stores/elastic-store.ts\<close> passes loosely typed
  payloads around (filters, metadata, vectors, request bodies are \<^verbatim>\<open>any\<close>): they
  are modelled as one datatype of JavaScript values. An object is the list of its own
  enumerable properties in the order \<^verbatim>\<open>Object.entries\<close> enumerates them. A number is
  a real: every finite double is one; NaN and the infinities are not modelled.
  \<open>JNative n\<close> is the built-in value that \<^verbatim>\<open>Object.prototype\<close> holds under the
  name \<open>n\<close>: it is what a lookup in an object literal returns for an inherited name.
\<close>

datatype jsval =
    JUndefined
  | JNull
  | JBool bool
  | JNum real
  | JStr string
  | JArr "jsval list"
  | JObj "(string \<times> jsval) list"
  | JNative string

definition object_prototype_names :: "string list" where
  "object_prototype_names =
     [''constructor'', ''__defineGetter__'', ''__defineSetter__'', ''hasOwnProperty'',
      ''__lookupGetter__'', ''__lookupSetter__'', ''isPrototypeOf'',
      ''propertyIsEnumerable'', ''toString'', ''valueOf'', ''__proto__'',
      ''toLocaleString'']"

text \<open>Truthiness, as \<^verbatim>\<open>if (v)\<close>, \<^verbatim>\<open>!v\<close> and \<^verbatim>\<open>a || b\<close> read it.\<close>

fun truthy :: "jsval \<Rightarrow> bool" where
  "truthy JUndefined = False"
| "truthy JNull = False"
| "truthy (JBool b) = b"
| "truthy (JNum n) = (n \<noteq> 0)"
| "truthy (JStr s) = (s \<noteq> [])"
| "truthy (JArr xs) = True"
| "truthy (JObj kvs) = True"
| "truthy (JNative n) = True"

fun typeof :: "jsval \<Rightarrow> string" where
  "typeof JUndefined = ''undefined''"
| "typeof JNull = ''object''"
| "typeof (JBool b) = ''boolean''"
| "typeof (JNum n) = ''number''"
| "typeof (JStr s) = ''string''"
| "typeof (JArr xs) = ''object''"
| "typeof (JObj kvs) = ''object''"
| "typeof (JNative n) = (if n = ''__proto__'' then ''object'' else ''function'')"

fun isArray :: "jsval \<Rightarrow> bool" where
  "isArray (JArr xs) = True"
| "isArray v = False"

definition js_or :: "jsval \<Rightarrow> jsval \<Rightarrow> jsval" where
  "js_or a b = (if truthy a then a else b)"

text \<open>
  \<^verbatim>\<open>v.k\<close> and \<^verbatim>\<open>v[k]\<close> on a value that is not null or undefined. An object
  literal answers with its own property, else with what it inherits from
  \<^verbatim>\<open>Object.prototype\<close>, else with undefined. On every other value the adapter only
  reads names that no built-in defines (\<^verbatim>\<open>metadata\<close>, \<^verbatim>\<open>vector\<close>, \<^verbatim>\<open>reason\<close>,
  \<^verbatim>\<open>type\<close>, \<^verbatim>\<open>build_flavor\<close>, \<^verbatim>\<open>number\<close>), which are undefined there.
\<close>

fun get_prop :: "jsval \<Rightarrow> string \<Rightarrow> jsval" where
  "get_prop (JObj kvs) k =
     (case map_of kvs k of
        Some v \<Rightarrow> v
      | None \<Rightarrow> if k \<in> set object_prototype_names then JNative k else JUndefined)"
| "get_prop v k = JUndefined"

text \<open>Optional chaining \<^verbatim>\<open>v?.k\<close>.\<close>

definition opt_prop :: "jsval \<Rightarrow> string \<Rightarrow> jsval" where
  "opt_prop v k = (if v = JUndefined \<or> v = JNull then JUndefined else get_prop v k)"

text \<open>Assignment \<^verbatim>\<open>o.k = v\<close> to an object: an existing property keeps its place.\<close>

fun set_prop :: "jsval \<Rightarrow> string \<Rightarrow> jsval \<Rightarrow> jsval" where
  "set_prop (JObj kvs) k v =
     (if k \<in> fst ` set kvs
      then JObj (map (\<lambda>(k', v'). if k' = k then (k', v) else (k', v')) kvs)
      else JObj (kvs @ [(k, v)]))"
| "set_prop o' k v = o'"

fun object_keys :: "jsval \<Rightarrow> string list" where
  "object_keys (JObj kvs) = map fst kvs"
| "object_keys v = []"

section \<open>Strings\<close>

definition dq :: string where
  "dq = [CHR 0x22]"

text \<open>\<open>quoted s\<close> is \<open>s\<close> between double quotes, as the messages print names.\<close>

definition quoted :: "string \<Rightarrow> string" where
  "quoted s = dq @ s @ dq"

definition digit_char :: "nat \<Rightarrow> char" where
  "digit_char n = ''0123456789'' ! n"

text \<open>The decimal digits of a natural number, as a template literal prints a length.\<close>

function show_nat :: "nat \<Rightarrow> string" where
  "show_nat n = (if n < 10 then [digit_char n] else show_nat (n div 10) @ [digit_char (n mod 10)])"
  by pat_completeness auto
termination
  by (relation "measure (\<lambda>n. n)") auto

declare show_nat.simps [simp del]

text \<open>\<^verbatim>\<open>String.prototype.toLowerCase\<close> on ASCII text.\<close>

definition lower_char :: "char \<Rightarrow> char" where
  "lower_char c =
     (let n = (of_char c :: nat) in if 65 \<le> n \<and> n \<le> 90 then char_of (n + 32) else c)"

definition toLowerCase :: "string \<Rightarrow> string" where
  "toLowerCase s = map lower_char s"

fun starts_with :: "string \<Rightarrow> string \<Rightarrow> bool" where
  "starts_with s [] = True"
| "starts_with [] (c # cs) = False"
| "starts_with (x # xs) (c # cs) = (x = c \<and> starts_with xs cs)"

text \<open>\<^verbatim>\<open>String.prototype.includes\<close>.\<close>

fun str_includes :: "string \<Rightarrow> string \<Rightarrow> bool" where
  "str_includes [] needle = (needle = [])"
| "str_includes (x # xs) needle = (starts_with (x # xs) needle \<or> str_includes xs needle)"

section \<open>Effects: adapter state, backend calls, log, exceptions\<close>

text \<open>
  A thrown value is represented by the message the adapter's handlers read from it
  (\<^verbatim>\<open>error instanceof Error ? error.message : String(error)\<close>). \<open>TypeError\<close> is
  what the runtime itself throws.
\<close>

datatype error = Error string | TypeError string

fun error_message :: "error \<Rightarrow> string" where
  "error_message (Error m) = m"
| "error_message (TypeError m) = m"

text \<open>The private fields of \<^verbatim>\<open>class ElasticVector\<close> (the client apart).\<close>

record adapter =
  isServerless :: "bool option"
  deploymentChecked :: bool
  maxCountAccuracy :: int

text \<open>\<^verbatim>\<open>ElasticVectorConfig\<close> (the client's own options apart) and the constructor.\<close>

record ElasticVectorConfig =
  cfg_isServerless :: "bool option"
  cfg_maxCountAccuracy :: "int option"

definition new_ElasticVector :: "ElasticVectorConfig \<Rightarrow> adapter" where
  "new_ElasticVector config =
     \<lparr>isServerless = cfg_isServerless config,
      deploymentChecked = False,
      maxCountAccuracy = (case cfg_maxCountAccuracy config of None \<Rightarrow> 10000 | Some n \<Rightarrow> n)\<rparr>"

text \<open>An adapter constructed with neither option, as the agents of the repository do.\<close>

definition default_adapter :: adapter where
  "default_adapter = new_ElasticVector \<lparr>cfg_isServerless = None, cfg_maxCountAccuracy = None\<rparr>"

datatype api = ClusterInfo | IndicesExists | IndicesCreate | Bulk | Search | Update

datatype level = Debug | Info | Warn | Err

text \<open>
  What an operation does besides returning: the requests it sends through the client,
  the calls \<^verbatim>\<open>this.logger?.level(message, payload)\<close> (they reach a logger when one is
  installed) and the lines it writes with \<^verbatim>\<open>console.error\<close>, in order.
\<close>

datatype event = Call api jsval | Log level string jsval | Console string jsval

type_synonym 'a eff = "adapter \<Rightarrow> (error + 'a) \<times> adapter \<times> event list"

definition ret :: "'a \<Rightarrow> 'a eff" where
  "ret x = (\<lambda>s. (Inr x, s, []))"

definition throw :: "error \<Rightarrow> 'a eff" where
  "throw e = (\<lambda>s. (Inl e, s, []))"

definition bnd :: "'a eff \<Rightarrow> ('a \<Rightarrow> 'b eff) \<Rightarrow> 'b eff" where
  "bnd m f = (\<lambda>s.
     case m s of
       (Inl e, s1, t1) \<Rightarrow> (Inl e, s1, t1)
     | (Inr x, s1, t1) \<Rightarrow> (case f x s1 of (r, s2, t2) \<Rightarrow> (r, s2, t1 @ t2)))"

text \<open>\<^verbatim>\<open>try { m } catch (error) { h error }\<close>.\<close>

definition catch :: "'a eff \<Rightarrow> (error \<Rightarrow> 'a eff) \<Rightarrow> 'a eff" where
  "catch m h = (\<lambda>s.
     case m s of
       (Inl e, s1, t1) \<Rightarrow> (case h e s1 of (r, s2, t2) \<Rightarrow> (r, s2, t1 @ t2))
     | (Inr x, s1, t1) \<Rightarrow> (Inr x, s1, t1))"

text \<open>A pure step of the runtime that may throw.\<close>

definition lift :: "error + 'a \<Rightarrow> 'a eff" where
  "lift r = (\<lambda>s. (r, s, []))"

text \<open>\<^verbatim>\<open>await this.client.api(req)\<close>: the request is sent, the backend answers \<open>resp\<close>.\<close>

definition call :: "api \<Rightarrow> jsval \<Rightarrow> error + 'a \<Rightarrow> 'a eff" where
  "call a req resp = (\<lambda>s. (resp, s, [Call a req]))"

definition logger :: "level \<Rightarrow> string \<Rightarrow> jsval \<Rightarrow> unit eff" where
  "logger l msg payload = (\<lambda>s. (Inr (), s, [Log l msg payload]))"

definition console_error :: "string \<Rightarrow> jsval \<Rightarrow> unit eff" where
  "console_error msg payload = (\<lambda>s. (Inr (), s, [Console msg payload]))"

definition get_state :: "adapter eff" where
  "get_state = (\<lambda>s. (Inr s, s, []))"

definition put_state :: "adapter \<Rightarrow> unit eff" where
  "put_state s' = (\<lambda>s. (Inr (), s', []))"

text \<open>The requests of a trace that went to one API of the client.\<close>

fun calls_to :: "api \<Rightarrow> event list \<Rightarrow> jsval list" where
  "calls_to a [] = []"
| "calls_to a (Call b req # evs) = (if a = b then req # calls_to a evs else calls_to a evs)"
| "calls_to a (ev # evs) = calls_to a evs"

fun is_call :: "event \<Rightarrow> bool" where
  "is_call (Call a req) = True"
| "is_call ev = False"

section \<open>Metric mapping\<close>

text \<open>\<^verbatim>\<open>mapMetricToSimilarity\<close> (lines 541-560).\<close>

definition metricMap :: jsval where
  "metricMap = JObj
     [(''cosine'', JStr ''cosine''),
      (''euclidean'', JStr ''l2_norm''),
      (''dotproduct'', JStr ''dot_product''),
      (''dot_product'', JStr ''dot_product'')]"

fun join :: "string \<Rightarrow> string list \<Rightarrow> string" where
  "join sep [] = []"
| "join sep [x] = x"
| "join sep (x # y # ys) = x @ sep @ join sep (y # ys)"

definition mapMetricToSimilarity :: "string \<Rightarrow> jsval eff" where
  "mapMetricToSimilarity metric =
     (let similarity = get_prop metricMap (toLowerCase metric) in
      if \<not> truthy similarity then
        bnd (logger Warn
               (''Unknown metric '' @ quoted metric @ '', defaulting to 'cosine'. '' @
                ''Supported metrics: '' @ join '', '' (object_keys metricMap))
               JUndefined)
          (\<lambda>_. ret (JStr ''cosine''))
      else ret similarity)"

text \<open>\<^verbatim>\<open>mapSimilarityToMetric\<close> (lines 567-575).\<close>

definition similarityMap :: jsval where
  "similarityMap = JObj
     [(''cosine'', JStr ''cosine''),
      (''l2_norm'', JStr ''euclidean''),
      (''dot_product'', JStr ''dotproduct'')]"

definition mapSimilarityToMetric :: "string \<Rightarrow> jsval" where
  "mapSimilarityToMetric similarity = js_or (get_prop similarityMap similarity) (JStr ''cosine'')"

section \<open>Filter translation\<close>

text \<open>
  \<^verbatim>\<open>k in v\<close>: a TypeError unless \<open>v\<close> is an object. The translator only tests
  operator names starting with \<^verbatim>\<open>$\<close>; an array and a built-in have no such member
  of their own, so only the inherited names are listed for them.
\<close>

fun js_in :: "string \<Rightarrow> jsval \<Rightarrow> error + bool" where
  "js_in k (JObj kvs) = Inr (k \<in> fst ` set kvs \<or> k \<in> set object_prototype_names)"
| "js_in k (JArr xs) = Inr (k \<in> set object_prototype_names)"
| "js_in k (JNative n) = Inr (k \<in> set object_prototype_names)"
| "js_in k v = Inl (TypeError (''Cannot use 'in' operator to search for '' @ k))"

text \<open>
  \<^verbatim>\<open>Object.entries(v)\<close>: a TypeError on null and undefined; the indexed elements of
  an array or a string; nothing for the other primitives and the built-ins.
\<close>

fun object_entries :: "jsval \<Rightarrow> error + (string \<times> jsval) list" where
  "object_entries (JObj kvs) = Inr kvs"
| "object_entries (JArr xs) = Inr (zip (map show_nat [0..<length xs]) xs)"
| "object_entries (JStr cs) = Inr (zip (map show_nat [0..<length cs]) (map (\<lambda>c. JStr [c]) cs))"
| "object_entries JUndefined = Inl (TypeError ''Cannot convert undefined or null to object'')"
| "object_entries JNull = Inl (TypeError ''Cannot convert undefined or null to object'')"
| "object_entries v = Inr []"

definition keyword_field :: "string \<Rightarrow> string" where
  "keyword_field key = ''metadata.'' @ key @ ''.keyword''"

definition raw_field :: "string \<Rightarrow> string" where
  "raw_field key = ''metadata.'' @ key"

text \<open>
  The body of the loop of \<^verbatim>\<open>buildElasticFilter\<close> (lines 602-630) for one entry
  whose value is neither null nor undefined; \<open>must\<close> is the array built so far and the
  result is the array after the entry.
\<close>

definition filter_leaf :: "string \<Rightarrow> jsval \<Rightarrow> jsval list \<Rightarrow> jsval list eff" where
  "filter_leaf key val must =
     (if typeof val = ''object'' \<and> \<not> isArray val then
        bnd (lift (js_in ''$eq'' val)) (\<lambda>has_eq.
        if has_eq then
          ret (must @ [JObj [(''term'', JObj [(keyword_field key, get_prop val ''$eq'')])]])
        else bnd (lift (js_in ''$in'' val)) (\<lambda>has_in.
        if has_in \<and> isArray (get_prop val ''$in'') then
          ret (must @ [JObj [(''terms'', JObj [(keyword_field key, get_prop val ''$in'')])]])
        else bnd (lift (js_in ''$ne'' val)) (\<lambda>has_ne.
        if has_ne then
          ret (must @ [JObj [(''bool'', JObj [(''must_not'',
                 JObj [(''term'', JObj [(keyword_field key, get_prop val ''$ne'')])])])]])
        else bnd (lift (js_in ''$gt'' val)) (\<lambda>has_gt.
        if has_gt then
          ret (must @ [JObj [(''range'', JObj [(raw_field key, JObj [(''gt'', get_prop val ''$gt'')])])]])
        else bnd (lift (js_in ''$gte'' val)) (\<lambda>has_gte.
        if has_gte then
          ret (must @ [JObj [(''range'', JObj [(raw_field key, JObj [(''gte'', get_prop val ''$gte'')])])]])
        else bnd (lift (js_in ''$lt'' val)) (\<lambda>has_lt.
        if has_lt then
          ret (must @ [JObj [(''range'', JObj [(raw_field key, JObj [(''lt'', get_prop val ''$lt'')])])]])
        else bnd (lift (js_in ''$lte'' val)) (\<lambda>has_lte.
        if has_lte then
          ret (must @ [JObj [(''range'', JObj [(raw_field key, JObj [(''lte'', get_prop val ''$lte'')])])]])
        else
          bnd (logger Warn (''Unsupported filter operator for field '' @ quoted key @ '':'') val)
            (\<lambda>_. ret must))))))))
      else
        ret (must @ [JObj [(''term'', JObj [(keyword_field key, val)])]]))"

text \<open>The loop over \<^verbatim>\<open>Object.entries(filter)\<close> (lines 597-631).\<close>

fun filter_loop :: "(string \<times> jsval) list \<Rightarrow> jsval list \<Rightarrow> jsval list eff" where
  "filter_loop [] must = ret must"
| "filter_loop ((key, val) # rest) must =
     (if val = JNull \<or> val = JUndefined then filter_loop rest must
      else bnd (filter_leaf key val must) (\<lambda>must'. filter_loop rest must'))"

text \<open>\<^verbatim>\<open>buildElasticFilter\<close> (lines 590-634).\<close>

definition buildElasticFilter :: "jsval \<Rightarrow> jsval eff" where
  "buildElasticFilter flt =
     (if \<not> truthy flt \<or> typeof flt \<noteq> ''object'' then ret JUndefined
      else
        bnd (lift (object_entries flt)) (\<lambda>entries.
        bnd (filter_loop entries []) (\<lambda>must.
        ret (if length must > 0 then JObj [(''bool'', JObj [(''must'', JArr must)])]
             else JUndefined))))"

text \<open>
  The operator keys the translator knows, and an entry whose value is an operator
  object with none of them: the leaf the claims call unrecognized.
\<close>

definition recognized_operators :: "string list" where
  "recognized_operators = [''$eq'', ''$in'', ''$ne'', ''$gt'', ''$gte'', ''$lt'', ''$lte'']"

fun unrecognized_leaf :: "string \<times> jsval \<Rightarrow> bool" where
  "unrecognized_leaf (k, JObj ops) = (\<forall>op \<in> set recognized_operators. op \<notin> fst ` set ops)"
| "unrecognized_leaf (k, v) = False"

text \<open>An entry whose value is null or undefined.\<close>

fun nullish_entry :: "string \<times> jsval \<Rightarrow> bool" where
  "nullish_entry (k, v) = (v = JNull \<or> v = JUndefined)"

text \<open>What a run returned (or threw) and the trace it left.\<close>

definition outcome :: "(error + 'a) \<times> adapter \<times> event list \<Rightarrow> error + 'a" where
  "outcome r = fst r"

definition events :: "(error + 'a) \<times> adapter \<times> event list \<Rightarrow> event list" where
  "events r = snd (snd r)"

section \<open>The backend\<close>

text \<open>
  What the Elasticsearch client answers. The client is typed: the cluster information is
  an object with \<^verbatim>\<open>version\<close> and \<^verbatim>\<open>tagline\<close>, the answer of a bulk request
  has the flag \<^verbatim>\<open>errors\<close> and the array \<^verbatim>\<open>items\<close>, a search hit has
  \<^verbatim>\<open>_id\<close>, \<^verbatim>\<open>_score\<close> and \<^verbatim>\<open>_source\<close>. A field that may be absent holds
  undefined.
\<close>

record cluster_info =
  info_version :: jsval
  info_tagline :: jsval

record bulk_response =
  bulk_errors :: bool
  bulk_items :: "jsval list"

record search_hit =
  hit_id :: jsval
  hit_score :: jsval
  hit_source :: jsval

record search_response =
  hits :: "search_hit list"

text \<open>
  The backend as the adapter sees it: for each API of the client, the answer to a
  request, or the error the awaited call throws.
\<close>

record backend =
  client_info :: "error + cluster_info"
  client_exists :: "jsval \<Rightarrow> error + bool"
  client_create :: "jsval \<Rightarrow> error + unit"
  client_bulk :: "jsval \<Rightarrow> error + bulk_response"
  client_search :: "jsval \<Rightarrow> error + search_response"
  client_update :: "jsval \<Rightarrow> error + unit"

section \<open>Deployment detection\<close>

text \<open>
  \<^verbatim>\<open>info.tagline?.toLowerCase().includes('serverless') ?? false\<close>: a tagline that is
  neither absent nor a string has no \<^verbatim>\<open>toLowerCase\<close>, and the call throws.
\<close>

fun tagline_serverless :: "jsval \<Rightarrow> error + bool" where
  "tagline_serverless JUndefined = Inr False"
| "tagline_serverless JNull = Inr False"
| "tagline_serverless (JStr t) = Inr (str_includes (toLowerCase t) ''serverless'')"
| "tagline_serverless v = Inl (TypeError ''info.tagline?.toLowerCase is not a function'')"

definition flavor_name :: "bool \<Rightarrow> string" where
  "flavor_name serverless = (if serverless then ''Serverless'' else ''Standard'')"

text \<open>\<^verbatim>\<open>detectServerless\<close> (lines 82-129).\<close>

definition detectServerless :: "backend \<Rightarrow> bool eff" where
  "detectServerless be =
     bnd get_state (\<lambda>this.
     if deploymentChecked this then
       ret (case isServerless this of Some b \<Rightarrow> b | None \<Rightarrow> False)
     else
       case isServerless this of
         Some b \<Rightarrow>
           bnd (put_state (this\<lparr>deploymentChecked := True\<rparr>)) (\<lambda>_.
           bnd (logger Info (''Using explicit deployment type: '' @ flavor_name b) JUndefined) (\<lambda>_.
           ret b))
       | None \<Rightarrow>
           catch
             (bnd (call ClusterInfo JUndefined (client_info be)) (\<lambda>info.
              let isBuildFlavorServerless =
                    (opt_prop (info_version info) ''build_flavor'' = JStr ''serverless'') in
              bnd (lift (tagline_serverless (info_tagline info))) (\<lambda>isTaglineServerless.
              let serverless = (isBuildFlavorServerless \<or> isTaglineServerless) in
              bnd (put_state (this\<lparr>isServerless := Some serverless, deploymentChecked := True\<rparr>)) (\<lambda>_.
              bnd (logger Info
                     (''Auto-detected '' @ flavor_name serverless @ '' Elasticsearch deployment'')
                     (JObj [(''buildFlavor'', opt_prop (info_version info) ''build_flavor''),
                            (''version'', opt_prop (info_version info) ''number''),
                            (''detectionMethod'',
                               JStr (if isBuildFlavorServerless then ''build_flavor'' else ''tagline''))]))
                (\<lambda>_.
              ret serverless)))))
             (\<lambda>error.
              bnd (logger Warn
                     (''Could not auto-detect deployment type, assuming Standard Elasticsearch. '' @
                      ''Set isServerless: true explicitly in config if using Serverless.'')
                     (JObj [(''error'', JStr (error_message error))])) (\<lambda>_.
              bnd (put_state (this\<lparr>isServerless := Some False, deploymentChecked := True\<rparr>)) (\<lambda>_.
              ret False))))"

text \<open>
  Calls of \<^verbatim>\<open>detectServerless\<close> one after the other on the same adapter, each awaited
  before the next starts; the backend may answer differently each time.
\<close>

fun detect_repeatedly :: "backend list \<Rightarrow> bool list eff" where
  "detect_repeatedly [] = ret []"
| "detect_repeatedly (be # bes) =
     bnd (detectServerless be) (\<lambda>b.
     bnd (detect_repeatedly bes) (\<lambda>bs.
     ret (b # bs)))"

section \<open>Index creation\<close>

text \<open>\<^verbatim>\<open>createIndex\<close> (lines 141-205). The method \<^verbatim>\<open>validateExistingIndex\<close> it
  calls is inherited from the base class \<^verbatim>\<open>MastraVector\<close> and is a parameter here.\<close>

definition createIndex ::
  "(string \<Rightarrow> int \<Rightarrow> string \<Rightarrow> unit eff) \<Rightarrow> backend \<Rightarrow> string \<Rightarrow> int \<Rightarrow> string option \<Rightarrow> unit eff"
where
  "createIndex validateExistingIndex be indexName dimension metric_opt =
     (let metric = (case metric_opt of None \<Rightarrow> ''cosine'' | Some m \<Rightarrow> m) in
      catch
        (bnd (call IndicesExists (JObj [(''index'', JStr indexName)])
                (client_exists be (JObj [(''index'', JStr indexName)]))) (\<lambda>exists.
         if exists then
           catch
             (bnd (validateExistingIndex indexName dimension metric) (\<lambda>_.
              logger Info (''Index '' @ quoted indexName @ '' already exists and is valid'') JUndefined))
             (\<lambda>validationError.
              throw (Error (''Index '' @ quoted indexName @
                            '' exists but does not match the required configuration: '' @
                            error_message validationError)))
         else
           bnd (detectServerless be) (\<lambda>serverless.
           bnd (mapMetricToSimilarity metric) (\<lambda>similarity.
           let indexConfig = JObj
                 [(''index'', JStr indexName),
                  (''mappings'', JObj [(''properties'', JObj
                     [(''vector'', JObj
                         [(''type'', JStr ''dense_vector''),
                          (''dims'', JNum (of_int dimension)),
                          (''index'', JBool True),
                          (''similarity'', similarity)]),
                      (''metadata'', JObj
                         [(''type'', JStr ''object''),
                          (''enabled'', JBool True),
                          (''dynamic'', JBool True)])])])];
               indexConfig' =
                 (if \<not> serverless then
                    set_prop indexConfig ''settings''
                      (JObj [(''number_of_shards'', JNum 1), (''number_of_replicas'', JNum 0)])
                  else indexConfig)
           in
           bnd (call IndicesCreate indexConfig' (client_create be indexConfig')) (\<lambda>_.
           logger Info
             (''Created '' @ flavor_name serverless @ '' Elasticsearch index '' @ quoted indexName)
             (JObj [(''dimension'', JNum (of_int dimension)), (''metric'', JStr metric),
                    (''similarity'', similarity)]))))))
        (\<lambda>error.
         let errorMessage = error_message error in
         bnd (logger Err (''Failed to create index '' @ quoted indexName @ '': '' @ errorMessage)
                JUndefined) (\<lambda>_.
         throw (Error (''Failed to create index '' @ quoted indexName @ '': '' @ errorMessage)))))"

text \<open>
  Modelled from the spec: \<^verbatim>\<open>validateExistingIndex\<close> is a method of the base class
  \<^verbatim>\<open>MastraVector\<close> of the package \<^verbatim>\<open>@mastra/core\<close>, whose code is not among the
  sources. The spec says of it: "If it exists, validates the existing schema's dimension
  and metric against the requested ones; mismatch is a fatal validation error", an error
  that "carries the offending index name and the mismatch detail". \<open>existing\<close> is the
  dimension and the metric of the existing index's schema.
\<close>

definition validateExistingIndex :: "int \<times> string \<Rightarrow> string \<Rightarrow> int \<Rightarrow> string \<Rightarrow> unit eff" where
  "validateExistingIndex existing indexName dimension metric =
     (if fst existing = dimension \<and> snd existing = metric then ret ()
      else throw (Error (''dimension or metric mismatch for index '' @ quoted indexName)))"

section \<open>Vector operations\<close>

text \<open>\<^verbatim>\<open>xs[i]\<close>: undefined out of range.\<close>

definition nth_or_undefined :: "jsval list \<Rightarrow> nat \<Rightarrow> jsval" where
  "nth_or_undefined xs i = (if i < length xs then xs ! i else JUndefined)"

text \<open>
  A generated id (line 218). \<open>now i\<close> is what \<^verbatim>\<open>Date.now()\<close> returns and \<open>rnd i\<close>
  is \<^verbatim>\<open>Math.random().toString(36).substr(2, 9)\<close> when the id of vector \<open>i\<close> is made.
\<close>

definition generated_id :: "(nat \<Rightarrow> nat) \<Rightarrow> (nat \<Rightarrow> string) \<Rightarrow> nat \<Rightarrow> string" where
  "generated_id now rnd i = ''vec_'' @ show_nat (now i) @ ''_'' @ show_nat i @ ''_'' @ rnd i"

text \<open>The two entries of the bulk body for the vector at \<open>index\<close> (lines 220-226).\<close>

definition bulk_operation :: "string \<Rightarrow> string list \<Rightarrow> jsval list \<Rightarrow> nat \<times> jsval \<Rightarrow> jsval list" where
  "bulk_operation indexName vectorIds metadata iv =
     [JObj [(''index'', JObj [(''_index'', JStr indexName),
                               (''_id'', nth_or_undefined (map JStr vectorIds) (fst iv))])],
      JObj [(''vector'', snd iv),
            (''metadata'', js_or (nth_or_undefined metadata (fst iv)) (JObj []))]]"

text \<open>\<^verbatim>\<open>item.index?.error\<close> and \<^verbatim>\<open>item.index?._id\<close> of an item of the answer.\<close>

definition item_error :: "jsval \<Rightarrow> jsval" where
  "item_error item = opt_prop (get_prop item ''index'') ''error''"

definition item_id :: "jsval \<Rightarrow> jsval" where
  "item_id item = opt_prop (get_prop item ''index'') ''_id''"

definition error_detail :: "jsval \<Rightarrow> jsval" where
  "error_detail item = JObj
     [(''id'', item_id item),
      (''error'', js_or (opt_prop (item_error item) ''reason'') (item_error item)),
      (''type'', opt_prop (item_error item) ''type'')]"

text \<open>The ids of the batch (line 218): the caller's, or generated ones.\<close>

definition vector_ids ::
  "(nat \<Rightarrow> nat) \<Rightarrow> (nat \<Rightarrow> string) \<Rightarrow> jsval list \<Rightarrow> string list option \<Rightarrow> string list"
where
  "vector_ids now rnd vectors ids =
     (case ids of
        Some given \<Rightarrow> given
      | None \<Rightarrow> map (generated_id now rnd) [0..<length vectors])"

text \<open>The bulk request (lines 220-231).\<close>

definition bulk_request :: "string \<Rightarrow> string list \<Rightarrow> jsval list \<Rightarrow> jsval list \<Rightarrow> jsval" where
  "bulk_request indexName vectorIds metadata vectors =
     (let operations =
            concat (map (bulk_operation indexName vectorIds metadata)
                      (zip [0..<length vectors] vectors))
      in JObj [(''refresh'', JBool True), (''operations'', JArr operations)])"

text \<open>
  What \<^verbatim>\<open>upsert\<close> does when the answer has \<^verbatim>\<open>errors\<close> set (lines 234-259). The
  second argument of \<^verbatim>\<open>console.error\<close> is recorded before \<^verbatim>\<open>JSON.stringify\<close>.
\<close>

definition report_failures :: "jsval list \<Rightarrow> string list \<Rightarrow> bulk_response \<Rightarrow> string list eff" where
  "report_failures vectors vectorIds response =
     (let erroredItems = filter (\<lambda>item. truthy (item_error item)) (bulk_items response);
          erroredIds = map item_id erroredItems;
          errorDetails = map error_detail (take 3 erroredItems);
          errorMessage = ''Failed to upsert '' @ show_nat (length erroredIds) @ ''/'' @
                         show_nat (length vectors) @ '' vectors''
      in
      bnd (console_error (errorMessage @ ''. Sample errors:'') (JArr errorDetails)) (\<lambda>_.
      bnd (logger Err errorMessage
             (JObj [(''failedCount'', JNum (of_nat (length erroredIds))),
                    (''totalCount'', JNum (of_nat (length vectors))),
                    (''sampleErrors'', JArr errorDetails)])) (\<lambda>_.
      let successfulIds = filter (\<lambda>vid. JStr vid \<notin> set erroredIds) vectorIds in
      if length successfulIds = 0 then
        throw (Error (errorMessage @ ''. All operations failed. See logs for details.''))
      else ret successfulIds)))"

text \<open>\<^verbatim>\<open>upsert\<close> (lines 213-269).\<close>

definition upsert ::
  "(nat \<Rightarrow> nat) \<Rightarrow> (nat \<Rightarrow> string) \<Rightarrow> backend \<Rightarrow> string \<Rightarrow> jsval list \<Rightarrow> jsval list option \<Rightarrow>
   string list option \<Rightarrow> string list eff"
where
  "upsert now rnd be indexName vectors metadata_opt ids =
     (let metadata = (case metadata_opt of None \<Rightarrow> [] | Some m \<Rightarrow> m) in
      catch
        (let vectorIds = vector_ids now rnd vectors ids;
             request = bulk_request indexName vectorIds metadata vectors
         in
         bnd (call Bulk request (client_bulk be request)) (\<lambda>response.
         if bulk_errors response then report_failures vectors vectorIds response
         else
           bnd (logger Info
                  (''Successfully upserted '' @ show_nat (length vectors) @ '' vectors to '' @
                   quoted indexName) JUndefined) (\<lambda>_.
           ret vectorIds)))
        (\<lambda>error.
         let errorMessage = error_message error in
         bnd (logger Err (''Failed to upsert vectors to '' @ quoted indexName @ '': '' @ errorMessage)
                JUndefined) (\<lambda>_.
         throw (Error (''Failed to upsert vectors to '' @ quoted indexName @ '': '' @ errorMessage)))))"

text \<open>The result made of one hit (lines 305-310).\<close>

definition hit_result :: "bool \<Rightarrow> search_hit \<Rightarrow> jsval" where
  "hit_result includeVector hit = JObj
     [(''id'', hit_id hit),
      (''score'', js_or (hit_score hit) (JNum 0)),
      (''metadata'', js_or (opt_prop (hit_source hit) ''metadata'') (JObj [])),
      (''vector'', if includeVector then opt_prop (hit_source hit) ''vector'' else JUndefined)]"

text \<open>
  The k-NN clause of \<^verbatim>\<open>query\<close> (lines 281-291): \<^verbatim>\<open>knnQuery\<close>, with the compiled
  filter assigned to its \<^verbatim>\<open>filter\<close> property when a filter is supplied. \<open>topK\<close> is
  an integer, and arithmetic on it is exact.
\<close>

definition knn_clause :: "jsval \<Rightarrow> int \<Rightarrow> jsval \<Rightarrow> jsval eff" where
  "knn_clause queryVector topK flt =
     (let knnQuery = JObj
            [(''field'', JStr ''vector''),
             (''query_vector'', queryVector),
             (''k'', JNum (of_int topK)),
             (''num_candidates'', JNum (of_int (max (topK * 10) 100)))]
      in
      if truthy flt then
        bnd (buildElasticFilter flt) (\<lambda>compiled. ret (set_prop knnQuery ''filter'' compiled))
      else ret knnQuery)"

text \<open>The search request of \<^verbatim>\<open>query\<close> (lines 293-303).\<close>

definition search_request :: "string \<Rightarrow> jsval \<Rightarrow> int \<Rightarrow> bool \<Rightarrow> jsval" where
  "search_request indexName knnQuery topK includeVector =
     (let sourceFields = [JStr ''metadata''] @ (if includeVector then [JStr ''vector''] else [])
      in JObj
        [(''index'', JStr indexName),
         (''knn'', knnQuery),
         (''size'', JNum (of_int topK)),
         (''_source'', JArr sourceFields)])"

text \<open>\<^verbatim>\<open>query\<close> (lines 277-319).\<close>

definition query ::
  "backend \<Rightarrow> string \<Rightarrow> jsval \<Rightarrow> int option \<Rightarrow> jsval \<Rightarrow> bool option \<Rightarrow> jsval list eff"
where
  "query be indexName queryVector topK_opt flt includeVector_opt =
     (let topK = (case topK_opt of None \<Rightarrow> 10 | Some k \<Rightarrow> k);
          includeVector = (case includeVector_opt of None \<Rightarrow> False | Some b \<Rightarrow> b)
      in
      catch
        (bnd (knn_clause queryVector topK flt) (\<lambda>knnQuery.
         let request = search_request indexName knnQuery topK includeVector in
         bnd (call Search request (client_search be request)) (\<lambda>response.
         let results = map (hit_result includeVector) (hits response) in
         bnd (logger Debug
                (''Query returned '' @ show_nat (length results) @ '' results from '' @
                 quoted indexName) JUndefined) (\<lambda>_.
         ret results))))
        (\<lambda>error.
         let errorMessage = error_message error in
         bnd (logger Err (''Failed to query vectors from '' @ quoted indexName @ '': '' @ errorMessage)
                JUndefined) (\<lambda>_.
         throw (Error (''Failed to query vectors from '' @ quoted indexName @ '': '' @ errorMessage)))))"

text \<open>
  \<^verbatim>\<open>updateVector\<close> (lines 476-510); \<open>update_vector\<close> and \<open>update_metadata\<close> are
  \<^verbatim>\<open>update.vector\<close> and \<^verbatim>\<open>update.metadata\<close>, undefined when absent.
\<close>

definition updateVector :: "backend \<Rightarrow> string \<Rightarrow> string \<Rightarrow> jsval \<Rightarrow> jsval \<Rightarrow> unit eff" where
  "updateVector be indexName vecId update_vector update_metadata =
     catch
       (let updateBody = JObj [];
            updateBody1 =
              (if truthy update_vector then set_prop updateBody ''vector'' update_vector
               else updateBody);
            updateBody2 =
              (if truthy update_metadata then set_prop updateBody1 ''metadata'' update_metadata
               else updateBody1)
        in
        if length (object_keys updateBody2) = 0 then
          logger Warn (''Update called for vector '' @ quoted vecId @ '' with no changes'') JUndefined
        else
          let request = JObj
                [(''index'', JStr indexName),
                 (''id'', JStr vecId),
                 (''body'', JObj [(''doc'', updateBody2)]),
                 (''refresh'', JBool True)]
          in
          bnd (call Update request (client_update be request)) (\<lambda>_.
          logger Info
            (''Successfully updated vector '' @ quoted vecId @ '' in index '' @ quoted indexName)
            JUndefined))
       (\<lambda>error.
        let errorMessage = error_message error in
        bnd (logger Err
               (''Failed to update vector '' @ quoted vecId @ '' in '' @ quoted indexName @ '': '' @
                errorMessage) JUndefined) (\<lambda>_.
        throw (Error (''Failed to update vector '' @ quoted vecId @ '' in '' @ quoted indexName @
                      '': '' @ errorMessage))))"

section \<open>Example backends\<close>

text \<open>A backend that cannot be reached: every call of the client throws.\<close>

definition unreachable_backend :: backend where
  "unreachable_backend =
     \<lparr>client_info = Inl (Error ''connect ECONNREFUSED''),
      client_exists = (\<lambda>req. Inl (Error ''connect ECONNREFUSED'')),
      client_create = (\<lambda>req. Inl (Error ''connect ECONNREFUSED'')),
      client_bulk = (\<lambda>req. Inl (Error ''connect ECONNREFUSED'')),
      client_search = (\<lambda>req. Inl (Error ''connect ECONNREFUSED'')),
      client_update = (\<lambda>req. Inl (Error ''connect ECONNREFUSED''))\<rparr>"

text \<open>
  A standard cluster on which every call succeeds: the index exists, and a search
  returns two hits, the second with neither score nor source.
\<close>

definition sample_hits :: "search_hit list" where
  "sample_hits =
     [\<lparr>hit_id = JStr ''m1'', hit_score = JNum 0.9,
       hit_source = JObj [(''metadata'', JObj [(''role'', JStr ''user'')]),
                          (''vector'', JArr [JNum 1, JNum 0])]\<rparr>,
      \<lparr>hit_id = JStr ''m2'', hit_score = JUndefined, hit_source = JUndefined\<rparr>]"

definition sample_backend :: backend where
  "sample_backend =
     \<lparr>client_info = Inr \<lparr>info_version = JObj [(''build_flavor'', JStr ''default''),
                                               (''number'', JStr ''8.15.0'')],
                          info_tagline = JStr ''You Know, for Search''\<rparr>,
      client_exists = (\<lambda>req. Inr True),
      client_create = (\<lambda>req. Inr ()),
      client_bulk = (\<lambda>req. Inr \<lparr>bulk_errors = False, bulk_items = []\<rparr>),
      client_search = (\<lambda>req. Inr \<lparr>hits = sample_hits\<rparr>),
      client_update = (\<lambda>req. Inr ())\<rparr>"

text \<open>
  A cluster that answers a bulk request of two operations, both with the id \<^verbatim>\<open>a\<close>:
  the first is indexed, the second is rejected (its vector has the wrong length).
\<close>

definition duplicate_id_response :: bulk_response where
  "duplicate_id_response =
     \<lparr>bulk_errors = True,
      bulk_items =
        [JObj [(''index'', JObj [(''_id'', JStr ''a''), (''status'', JNum 201)])],
         JObj [(''index'', JObj
            [(''_id'', JStr ''a''), (''status'', JNum 400),
             (''error'', JObj [(''type'', JStr ''mapper_parsing_exception''),
                               (''reason'', JStr ''failed to parse field [vector]'')])])]]\<rparr>"

definition duplicate_id_backend :: backend where
  "duplicate_id_backend = sample_backend\<lparr>client_bulk := (\<lambda>req. Inr duplicate_id_response)\<rparr>"

section \<open>Reading decimal digits\<close>

text \<open>The inverse of \<open>show_nat\<close>, used to show that it is injective.\<close>

fun digit_value :: "char \<Rightarrow> nat" where
  "digit_value c = of_char c - 48"

definition read_nat :: "string \<Rightarrow> nat" where
  "read_nat cs = foldl (\<lambda>acc c. 10 * acc + digit_value c) 0 cs"

section \<open>Theorems\<close>

subsection \<open>Running the effects\<close>

lemma bnd_ret [simp]: "bnd (ret x) f = f x"
  by (simp add: bnd_def ret_def fun_eq_iff split: prod.splits)

lemma bnd_lift_Inr [simp]: "bnd (lift (Inr x)) f = f x"
  by (simp add: bnd_def lift_def fun_eq_iff split: prod.splits)

lemma bnd_lift_Inl [simp]: "bnd (lift (Inl e)) f = throw e"
  by (simp add: bnd_def lift_def throw_def fun_eq_iff)

lemma bnd_logger: "bnd (logger l m p) f s = (case f () s of (r, s', t) \<Rightarrow> (r, s', Log l m p # t))"
  by (simp add: bnd_def logger_def)

lemmas eff_defs = ret_def throw_def bnd_def catch_def lift_def call_def logger_def
  console_error_def get_state_def put_state_def

subsection \<open>Metric mapping\<close>

lemma toLowerCase_supported:
  "toLowerCase ''cosine'' = ''cosine''"
  "toLowerCase ''euclidean'' = ''euclidean''"
  "toLowerCase ''dotproduct'' = ''dotproduct''"
  by (simp_all add: toLowerCase_def lower_char_def)

lemma mapMetricToSimilarity_supported:
  "mapMetricToSimilarity ''cosine'' s = (Inr (JStr ''cosine''), s, [])"
  "mapMetricToSimilarity ''euclidean'' s = (Inr (JStr ''l2_norm''), s, [])"
  "mapMetricToSimilarity ''dotproduct'' s = (Inr (JStr ''dot_product''), s, [])"
  by (simp_all add: mapMetricToSimilarity_def toLowerCase_supported metricMap_def ret_def)

lemma mapSimilarityToMetric_backend:
  "mapSimilarityToMetric ''cosine'' = JStr ''cosine''"
  "mapSimilarityToMetric ''l2_norm'' = JStr ''euclidean''"
  "mapSimilarityToMetric ''dot_product'' = JStr ''dotproduct''"
  by (simp_all add: mapSimilarityToMetric_def similarityMap_def js_or_def)

text \<open>
  C3. Over the supported set \<open>{cosine, euclidean, dotproduct}\<close> the metric mapping is a
  round trip: \<^verbatim>\<open>mapMetricToSimilarity(m)\<close> returns a backend similarity name
  (without throwing, logging or touching the adapter's state), and
  \<^verbatim>\<open>mapSimilarityToMetric\<close> of that name is \<open>m\<close> again.
\<close>

theorem metric_round_trip:
  assumes "m \<in> {''cosine'', ''euclidean'', ''dotproduct''}"
  shows "\<exists>sim. mapMetricToSimilarity m s = (Inr (JStr sim), s, []) \<and>
           mapSimilarityToMetric sim = JStr m"
proof -
  from assms consider "m = ''cosine''" | "m = ''euclidean''" | "m = ''dotproduct''"
    by blast
  then show ?thesis
  proof cases
    case 1
    then show ?thesis
      using mapMetricToSimilarity_supported(1) mapSimilarityToMetric_backend(1) by blast
  next
    case 2
    then show ?thesis
      using mapMetricToSimilarity_supported(2) mapSimilarityToMetric_backend(2) by blast
  next
    case 3
    then show ?thesis
      using mapMetricToSimilarity_supported(3) mapSimilarityToMetric_backend(3) by blast
  qed
qed

theorem metric_round_trip_witness:
  "\<exists>sim. mapMetricToSimilarity ''euclidean''
            \<lparr>isServerless = None, deploymentChecked = False, maxCountAccuracy = 10000\<rparr>
          = (Inr (JStr sim),
             \<lparr>isServerless = None, deploymentChecked = False, maxCountAccuracy = 10000\<rparr>, []) \<and>
         mapSimilarityToMetric sim = JStr ''euclidean''"
  using metric_round_trip [of "''euclidean''"] by simp

subsection \<open>Filter translation\<close>

lemma operator_not_inherited:
  "''$eq'' \<notin> set object_prototype_names" "''$in'' \<notin> set object_prototype_names"
  "''$ne'' \<notin> set object_prototype_names" "''$gt'' \<notin> set object_prototype_names"
  "''$gte'' \<notin> set object_prototype_names" "''$lt'' \<notin> set object_prototype_names"
  "''$lte'' \<notin> set object_prototype_names"
  by (simp_all add: object_prototype_names_def)

lemma filter_leaf_in:
  "filter_leaf key (JObj [(''$in'', JArr xs)]) must s =
     (Inr (must @ [JObj [(''terms'', JObj [(''metadata.'' @ key @ ''.keyword'', JArr xs)])]]), s, [])"
  by (simp add: filter_leaf_def operator_not_inherited keyword_field_def ret_def)

lemma filter_leaf_total:
  "val \<noteq> JNull \<Longrightarrow> \<exists>must' evs. filter_leaf key val must s = (Inr must', s, evs)"
  by (cases val) (simp_all add: filter_leaf_def ret_def bnd_logger)

lemma filter_loop_total: "\<exists>must' evs. filter_loop es must s = (Inr must', s, evs)"
proof (induction es arbitrary: must)
  case Nil
  then show ?case by (simp add: ret_def)
next
  case (Cons e es)
  obtain key val where e: "e = (key, val)" by (cases e)
  show ?case
  proof (cases "val = JNull \<or> val = JUndefined")
    case True
    then show ?thesis using Cons.IH [of must] by (simp add: e)
  next
    case False
    then obtain must1 evs1 where leaf: "filter_leaf key val must s = (Inr must1, s, evs1)"
      using filter_leaf_total by blast
    obtain must2 evs2 where rest: "filter_loop es must1 s = (Inr must2, s, evs2)"
      using Cons.IH by blast
    show ?thesis using False by (simp add: e bnd_def leaf rest)
  qed
qed

lemma buildElasticFilter_total: "\<exists>r evs. buildElasticFilter flt s = (Inr r, s, evs)"
proof (cases "\<not> truthy flt \<or> typeof flt \<noteq> ''object''")
  case True
  then show ?thesis by (simp add: buildElasticFilter_def ret_def)
next
  case False
  then obtain entries where en: "object_entries flt = Inr entries"
    by (cases flt) auto
  obtain must evs where lp: "filter_loop entries [] s = (Inr must, s, evs)"
    using filter_loop_total by blast
  show ?thesis using False
    by (simp add: buildElasticFilter_def en bnd_def lift_def lp ret_def)
qed

lemma filter_leaf_unrecognized:
  assumes "unrecognized_leaf (key, val)"
  shows "filter_leaf key val must s =
           (Inr must, s, [Log Warn (''Unsupported filter operator for field '' @ quoted key @ '':'') val])"
proof -
  from assms obtain ops where v: "val = JObj ops" by (cases val) auto
  with assms have "\<forall>op \<in> set recognized_operators. op \<notin> fst ` set ops" by simp
  then have nk: "''$eq'' \<notin> fst ` set ops" "''$in'' \<notin> fst ` set ops" "''$ne'' \<notin> fst ` set ops"
    "''$gt'' \<notin> fst ` set ops" "''$gte'' \<notin> fst ` set ops" "''$lt'' \<notin> fst ` set ops"
    "''$lte'' \<notin> fst ` set ops"
    by (simp_all add: recognized_operators_def)
  show ?thesis
    by (simp add: v filter_leaf_def nk operator_not_inherited bnd_logger ret_def)
qed

lemma filter_leaf_range:
  assumes "(op, name) \<in> set [(''$gt'', ''gt''), (''$gte'', ''gte''), (''$lt'', ''lt''), (''$lte'', ''lte'')]"
  shows "filter_leaf key (JObj [(op, n)]) must s =
     (Inr (must @ [JObj [(''range'', JObj [(''metadata.'' @ key, JObj [(name, n)])])]]), s, [])"
proof -
  from assms consider "op = ''$gt'' \<and> name = ''gt''" | "op = ''$gte'' \<and> name = ''gte''"
    | "op = ''$lt'' \<and> name = ''lt''" | "op = ''$lte'' \<and> name = ''lte''"
    by auto
  then show ?thesis
    by cases (simp_all add: filter_leaf_def operator_not_inherited raw_field_def ret_def)
qed

lemma buildElasticFilter_single:
  assumes "val \<noteq> JNull" "val \<noteq> JUndefined"
    and "filter_leaf key val [] s = (Inr [p], s, evs)"
  shows "buildElasticFilter (JObj [(key, val)]) s =
           (Inr (JObj [(''bool'', JObj [(''must'', JArr [p])])]), s, evs)"
  using assms by (simp add: buildElasticFilter_def bnd_def lift_def ret_def)

lemma buildElasticFilter_empty: "buildElasticFilter (JObj []) s = (Inr JUndefined, s, [])"
  by (simp add: buildElasticFilter_def bnd_def lift_def ret_def)

text \<open>
  C4. A leaf \<^verbatim>\<open>{field: {$in: [...]}}\<close> compiles to a \<^verbatim>\<open>terms\<close> predicate on
  \<^verbatim>\<open>metadata.<field>.keyword\<close>; a leaf with one of the range operators
  \<^verbatim>\<open>$gt\<close>, \<^verbatim>\<open>$gte\<close>, \<^verbatim>\<open>$lt\<close>, \<^verbatim>\<open>$lte\<close> compiles to a \<^verbatim>\<open>range\<close>
  predicate on \<^verbatim>\<open>metadata.<field>\<close>, with no \<^verbatim>\<open>.keyword\<close> added; the empty filter
  object compiles to undefined, that is to no filter. Each leaf is stated twice: as the
  step of the loop after any predicates \<open>must\<close> collected before it, and as the whole
  filter with that single leaf. Nothing is logged and nothing is thrown.
\<close>

theorem filter_translation:
  "filter_leaf field (JObj [(''$in'', JArr xs)]) must s =
     (Inr (must @ [JObj [(''terms'', JObj [(''metadata.'' @ field @ ''.keyword'', JArr xs)])]]), s, [])
   \<and> buildElasticFilter (JObj [(field, JObj [(''$in'', JArr xs)])]) s =
     (Inr (JObj [(''bool'', JObj [(''must'', JArr
        [JObj [(''terms'', JObj [(''metadata.'' @ field @ ''.keyword'', JArr xs)])]])])]), s, [])
   \<and> (\<forall>(op, name) \<in> set [(''$gt'', ''gt''), (''$gte'', ''gte''), (''$lt'', ''lt''), (''$lte'', ''lte'')].
        filter_leaf field (JObj [(op, n)]) must s =
          (Inr (must @ [JObj [(''range'', JObj [(''metadata.'' @ field, JObj [(name, n)])])]]), s, [])
        \<and> buildElasticFilter (JObj [(field, JObj [(op, n)])]) s =
          (Inr (JObj [(''bool'', JObj [(''must'', JArr
             [JObj [(''range'', JObj [(''metadata.'' @ field, JObj [(name, n)])])]])])]), s, []))
   \<and> buildElasticFilter (JObj []) s = (Inr JUndefined, s, [])"
proof (intro conjI ballI)
  show "filter_leaf field (JObj [(''$in'', JArr xs)]) must s =
     (Inr (must @ [JObj [(''terms'', JObj [(''metadata.'' @ field @ ''.keyword'', JArr xs)])]]), s, [])"
    by (rule filter_leaf_in)
  show "buildElasticFilter (JObj [(field, JObj [(''$in'', JArr xs)])]) s =
     (Inr (JObj [(''bool'', JObj [(''must'', JArr
        [JObj [(''terms'', JObj [(''metadata.'' @ field @ ''.keyword'', JArr xs)])]])])]), s, [])"
    using filter_leaf_in [of field xs "[]" s] by (intro buildElasticFilter_single) simp_all
  show "buildElasticFilter (JObj []) s = (Inr JUndefined, s, [])"
    by (rule buildElasticFilter_empty)
next
  fix x
  assume x: "x \<in> set [(''$gt'', ''gt''), (''$gte'', ''gte''), (''$lt'', ''lt''), (''$lte'', ''lte'')]"
  obtain op name where xe: "x = (op, name)" by (cases x)
  have leaf: "filter_leaf field (JObj [(op, n)]) m s =
          (Inr (m @ [JObj [(''range'', JObj [(''metadata.'' @ field, JObj [(name, n)])])]]), s, [])" for m
    using x unfolding xe by (rule filter_leaf_range)
  have whole: "buildElasticFilter (JObj [(field, JObj [(op, n)])]) s =
          (Inr (JObj [(''bool'', JObj [(''must'', JArr
             [JObj [(''range'', JObj [(''metadata.'' @ field, JObj [(name, n)])])]])])]), s, [])"
    using leaf [of "[]"] by (intro buildElasticFilter_single) simp_all
  show "case x of (op, name) \<Rightarrow>
        filter_leaf field (JObj [(op, n)]) must s =
          (Inr (must @ [JObj [(''range'', JObj [(''metadata.'' @ field, JObj [(name, n)])])]]), s, [])
        \<and> buildElasticFilter (JObj [(field, JObj [(op, n)])]) s =
          (Inr (JObj [(''bool'', JObj [(''must'', JArr
             [JObj [(''range'', JObj [(''metadata.'' @ field, JObj [(name, n)])])]])])]), s, [])"
    using leaf [of must] whole by (simp add: xe)
qed

theorem filter_translation_witness:
  "buildElasticFilter (JObj [(''status'', JObj [(''$in'', JArr [JStr ''a'', JStr ''b''])])]) default_adapter =
     (Inr (JObj [(''bool'', JObj [(''must'', JArr
        [JObj [(''terms'', JObj [(''metadata.status.keyword'', JArr [JStr ''a'', JStr ''b''])])]])])]),
      default_adapter, [])
   \<and> buildElasticFilter (JObj [(''count'', JObj [(''$gte'', JNum 5)])]) default_adapter =
     (Inr (JObj [(''bool'', JObj [(''must'', JArr
        [JObj [(''range'', JObj [(''metadata.count'', JObj [(''gte'', JNum 5)])])]])])]),
      default_adapter, [])
   \<and> buildElasticFilter (JObj []) default_adapter = (Inr JUndefined, default_adapter, [])"
  using filter_translation [of "''status''" "[JStr ''a'', JStr ''b'']" "[]" default_adapter "JNum 5"]
    filter_translation [of "''count''" "[]" "[]" default_adapter "JNum 5"]
  by simp

lemma filter_leaf_literal:
  assumes "typeof val \<noteq> ''object'' \<or> isArray val"
  shows "filter_leaf key val must s =
           (Inr (must @ [JObj [(''term'', JObj [(''metadata.'' @ key @ ''.keyword'', val)])]]), s, [])"
proof -
  from assms have c: "(typeof val = ''object'' \<and> \<not> isArray val) = False" by blast
  show ?thesis
    unfolding filter_leaf_def c by (simp add: keyword_field_def ret_def)
qed

lemma unrecognized_not_nullish: "unrecognized_leaf (k, v) \<Longrightarrow> v \<noteq> JNull \<and> v \<noteq> JUndefined"
  by (cases v) auto

lemma filter_loop_unrecognized:
  "\<exists>r evs evs'. filter_loop es must s = (r, s, evs)
     \<and> filter_loop (filter (\<lambda>e. \<not> unrecognized_leaf e) es) must s = (r, s, evs')
     \<and> length evs = length evs' + length (filter unrecognized_leaf es)"
proof (induction es arbitrary: must)
  case Nil
  then show ?case by (simp add: ret_def)
next
  case (Cons e es)
  obtain key val where e: "e = (key, val)" by (cases e)
  show ?case
  proof (cases "unrecognized_leaf (key, val)")
    case True
    note leaf = filter_leaf_unrecognized [OF True, of must s]
    from Cons.IH [of must] obtain r evs evs' where
      ih: "filter_loop es must s = (r, s, evs)"
        "filter_loop (filter (\<lambda>e. \<not> unrecognized_leaf e) es) must s = (r, s, evs')"
        "length evs = length evs' + length (filter unrecognized_leaf es)"
      by blast
    show ?thesis
      using True unrecognized_not_nullish [OF True]
      by (simp add: e bnd_def leaf ih)
  next
    case False
    show ?thesis
    proof (cases "val = JNull \<or> val = JUndefined")
      case True
      then show ?thesis using False Cons.IH [of must] by (simp add: e)
    next
      case nn: False
      then obtain must1 evs1 where leaf: "filter_leaf key val must s = (Inr must1, s, evs1)"
        using filter_leaf_total by blast
      from Cons.IH [of must1] obtain r evs evs' where
        ih: "filter_loop es must1 s = (r, s, evs)"
          "filter_loop (filter (\<lambda>e. \<not> unrecognized_leaf e) es) must1 s = (r, s, evs')"
          "length evs = length evs' + length (filter unrecognized_leaf es)"
        by blast
      show ?thesis using False nn by (simp add: e bnd_def leaf ih)
    qed
  qed
qed

lemma buildElasticFilter_unrecognized:
  "outcome (buildElasticFilter (JObj es) s) =
     outcome (buildElasticFilter (JObj (filter (\<lambda>e. \<not> unrecognized_leaf e) es)) s)
   \<and> length (events (buildElasticFilter (JObj es) s)) =
     length (events (buildElasticFilter (JObj (filter (\<lambda>e. \<not> unrecognized_leaf e) es)) s))
       + length (filter unrecognized_leaf es)"
proof -
  from filter_loop_unrecognized [of es "[]" s] obtain r evs evs' where
    lp: "filter_loop es [] s = (r, s, evs)"
      "filter_loop (filter (\<lambda>e. \<not> unrecognized_leaf e) es) [] s = (r, s, evs')"
      "length evs = length evs' + length (filter unrecognized_leaf es)"
    by blast
  show ?thesis
    by (cases r) (simp_all add: buildElasticFilter_def bnd_def lift_def ret_def lp outcome_def events_def)
qed

text \<open>
  C6. An operator object of the filter language has one key. A leaf whose operator
  object has none of the seven recognized operator keys (\<open>unrecognized_leaf\<close>) is skipped
  with one warning and nothing is thrown: \<^verbatim>\<open>buildElasticFilter\<close> returns normally on
  every value, leaving the adapter's state alone; the step of the loop at such a leaf
  leaves the collected predicates as they were and logs one warning that names the field;
  the compiled filter of an object is the compiled filter of the object without these
  leaves, and the trace is longer by one entry for each of them; a filter object all of
  whose leaves are unrecognized compiles to undefined, that is to no filter.
\<close>

theorem unrecognized_operators_skipped:
  "(\<exists>r evs. buildElasticFilter flt s = (Inr r, s, evs))
   \<and> (unrecognized_leaf (k, v) \<longrightarrow>
        filter_leaf k v must s =
          (Inr must, s, [Log Warn (''Unsupported filter operator for field '' @ quoted k @ '':'') v]))
   \<and> outcome (buildElasticFilter (JObj es) s) =
        outcome (buildElasticFilter (JObj (filter (\<lambda>e. \<not> unrecognized_leaf e) es)) s)
   \<and> length (events (buildElasticFilter (JObj es) s)) =
        length (events (buildElasticFilter (JObj (filter (\<lambda>e. \<not> unrecognized_leaf e) es)) s))
          + length (filter unrecognized_leaf es)
   \<and> ((\<forall>e \<in> set es. unrecognized_leaf e) \<longrightarrow>
        outcome (buildElasticFilter (JObj es) s) = Inr JUndefined)"
proof (intro conjI impI)
  show "\<exists>r evs. buildElasticFilter flt s = (Inr r, s, evs)"
    by (rule buildElasticFilter_total)
  show "outcome (buildElasticFilter (JObj es) s) =
        outcome (buildElasticFilter (JObj (filter (\<lambda>e. \<not> unrecognized_leaf e) es)) s)"
    using buildElasticFilter_unrecognized by blast
  show "length (events (buildElasticFilter (JObj es) s)) =
        length (events (buildElasticFilter (JObj (filter (\<lambda>e. \<not> unrecognized_leaf e) es)) s))
          + length (filter unrecognized_leaf es)"
    using buildElasticFilter_unrecognized by blast
next
  assume "unrecognized_leaf (k, v)"
  then show "filter_leaf k v must s =
          (Inr must, s, [Log Warn (''Unsupported filter operator for field '' @ quoted k @ '':'') v])"
    by (rule filter_leaf_unrecognized)
next
  assume all: "\<forall>e \<in> set es. unrecognized_leaf e"
  then have "filter (\<lambda>e. \<not> unrecognized_leaf e) es = []"
    by (simp add: filter_empty_conv)
  then have "outcome (buildElasticFilter (JObj es) s) = outcome (buildElasticFilter (JObj []) s)"
    using buildElasticFilter_unrecognized [of es s] by simp
  then show "outcome (buildElasticFilter (JObj es) s) = Inr JUndefined"
    by (simp add: buildElasticFilter_empty outcome_def)
qed

theorem unrecognized_operators_skipped_witness:
  "unrecognized_leaf (''title'', JObj [(''$regex'', JStr ''a.*'')])
   \<and> buildElasticFilter
        (JObj [(''title'', JObj [(''$regex'', JStr ''a.*'')]), (''status'', JStr ''open'')]) default_adapter =
      (Inr (JObj [(''bool'', JObj [(''must'', JArr
         [JObj [(''term'', JObj [(''metadata.status.keyword'', JStr ''open'')])]])])]),
       default_adapter,
       [Log Warn (''Unsupported filter operator for field '' @ quoted ''title'' @ '':'')
          (JObj [(''$regex'', JStr ''a.*'')])])
   \<and> outcome (buildElasticFilter (JObj [(''title'', JObj [(''$regex'', JStr ''a.*'')])]) default_adapter) =
      Inr JUndefined"
proof -
  let ?leaf = "JObj [(''$regex'', JStr ''a.*'')]"
  have u: "unrecognized_leaf (''title'', ?leaf)"
    by (simp add: recognized_operators_def)
  have all: "\<forall>e \<in> set [(''title'', ?leaf)]. unrecognized_leaf e"
    using u by simp
  note inst = unrecognized_operators_skipped [of "JNull" default_adapter "''title''" ?leaf "[]"
      "[(''title'', ?leaf)]"]
  have leaf: "filter_leaf ''title'' ?leaf [] default_adapter =
      (Inr [], default_adapter,
       [Log Warn (''Unsupported filter operator for field '' @ quoted ''title'' @ '':'') ?leaf])"
    using inst [THEN conjunct2, THEN conjunct1] u by (rule mp)
  have status: "filter_leaf ''status'' (JStr ''open'') [] default_adapter =
      (Inr [JObj [(''term'', JObj [(''metadata.status.keyword'', JStr ''open'')])]], default_adapter, [])"
    using filter_leaf_literal [of "JStr ''open''" "''status''" "[]" default_adapter] by simp
  have whole: "buildElasticFilter (JObj [(''title'', ?leaf), (''status'', JStr ''open'')]) default_adapter =
      (Inr (JObj [(''bool'', JObj [(''must'', JArr
         [JObj [(''term'', JObj [(''metadata.status.keyword'', JStr ''open'')])]])])]),
       default_adapter,
       [Log Warn (''Unsupported filter operator for field '' @ quoted ''title'' @ '':'') ?leaf])"
    by (simp add: buildElasticFilter_def bnd_def lift_def ret_def leaf status)
  have none: "outcome (buildElasticFilter (JObj [(''title'', ?leaf)]) default_adapter) = Inr JUndefined"
    using inst [THEN conjunct2, THEN conjunct2, THEN conjunct2, THEN conjunct2] all by (rule mp)
  show ?thesis
    using u whole none by (intro conjI)
qed

subsection \<open>Deployment detection\<close>

lemma detectServerless_checked:
  "deploymentChecked s \<Longrightarrow>
     detectServerless be s = (Inr (case isServerless s of Some b \<Rightarrow> b | None \<Rightarrow> False), s, [])"
  by (simp add: detectServerless_def eff_defs)

lemma detectServerless_explicit:
  "\<not> deploymentChecked s \<Longrightarrow> isServerless s = Some b \<Longrightarrow>
     detectServerless be s =
       (Inr b, s\<lparr>deploymentChecked := True\<rparr>,
        [Log Info (''Using explicit deployment type: '' @ flavor_name b) JUndefined])"
  by (simp add: detectServerless_def eff_defs)

lemma detectServerless_failure:
  "\<not> deploymentChecked s \<Longrightarrow> isServerless s = None \<Longrightarrow> client_info be = Inl e \<Longrightarrow>
     detectServerless be s =
       (Inr False, s\<lparr>isServerless := Some False, deploymentChecked := True\<rparr>,
        [Call ClusterInfo JUndefined,
         Log Warn (''Could not auto-detect deployment type, assuming Standard Elasticsearch. '' @
                   ''Set isServerless: true explicitly in config if using Serverless.'')
           (JObj [(''error'', JStr (error_message e))])])"
  by (simp add: detectServerless_def eff_defs)

lemma detectServerless_tagline_error:
  "\<not> deploymentChecked s \<Longrightarrow> isServerless s = None \<Longrightarrow> client_info be = Inr info \<Longrightarrow>
   tagline_serverless (info_tagline info) = Inl e \<Longrightarrow>
     detectServerless be s =
       (Inr False, s\<lparr>isServerless := Some False, deploymentChecked := True\<rparr>,
        [Call ClusterInfo JUndefined,
         Log Warn (''Could not auto-detect deployment type, assuming Standard Elasticsearch. '' @
                   ''Set isServerless: true explicitly in config if using Serverless.'')
           (JObj [(''error'', JStr (error_message e))])])"
  by (simp add: detectServerless_def eff_defs)

lemma detectServerless_introspected:
  "\<not> deploymentChecked s \<Longrightarrow> isServerless s = None \<Longrightarrow> client_info be = Inr info \<Longrightarrow>
   tagline_serverless (info_tagline info) = Inr t \<Longrightarrow>
   b = (opt_prop (info_version info) ''build_flavor'' = JStr ''serverless'' \<or> t) \<Longrightarrow>
     detectServerless be s =
       (Inr b, s\<lparr>isServerless := Some b, deploymentChecked := True\<rparr>,
        [Call ClusterInfo JUndefined,
         Log Info (''Auto-detected '' @ flavor_name b @ '' Elasticsearch deployment'')
           (JObj [(''buildFlavor'', opt_prop (info_version info) ''build_flavor''),
                  (''version'', opt_prop (info_version info) ''number''),
                  (''detectionMethod'',
                     JStr (if opt_prop (info_version info) ''build_flavor'' = JStr ''serverless''
                           then ''build_flavor'' else ''tagline''))])])"
  by (simp add: detectServerless_def eff_defs Let_def)

text \<open>Whatever the state and the backend, one call returns, leaves the adapter checked with the
  returned flavor cached, and sends at most one request.\<close>

lemma detectServerless_once:
  "\<exists>b s' evs. detectServerless be s = (Inr b, s', evs) \<and> deploymentChecked s'
      \<and> (case isServerless s' of Some c \<Rightarrow> c | None \<Rightarrow> False) = b
      \<and> length (filter is_call evs) \<le> 1"
proof (cases "deploymentChecked s")
  case True
  then show ?thesis by (simp add: detectServerless_checked)
next
  case nc: False
  show ?thesis
  proof (cases "isServerless s")
    case (Some b)
    with nc show ?thesis by (simp add: detectServerless_explicit)
  next
    case None
    show ?thesis
    proof (cases "client_info be")
      case (Inl e)
      with nc None show ?thesis by (auto simp: detectServerless_failure)
    next
      case (Inr info)
      show ?thesis
      proof (cases "tagline_serverless (info_tagline info)")
        case (Inl e)
        with nc None Inr show ?thesis by (auto simp: detectServerless_tagline_error)
      next
        case t: (Inr t)
        show ?thesis
          using detectServerless_introspected [OF nc None Inr t refl] by simp
      qed
    qed
  qed
qed

lemma detect_repeatedly_checked:
  "deploymentChecked s \<Longrightarrow>
     detect_repeatedly bes s =
       (Inr (replicate (length bes) (case isServerless s of Some b \<Rightarrow> b | None \<Rightarrow> False)), s, [])"
  by (induction bes) (simp_all add: detectServerless_checked bnd_def ret_def)

lemma detect_repeatedly_once:
  "\<exists>b s' evs. detect_repeatedly bes s = (Inr (replicate (length bes) b), s', evs)
      \<and> length (filter is_call evs) \<le> 1"
proof (cases bes)
  case Nil
  then show ?thesis by (simp add: ret_def)
next
  case (Cons be rest)
  from detectServerless_once [of be s] obtain b s' evs where
    first: "detectServerless be s = (Inr b, s', evs)" "deploymentChecked s'"
      "(case isServerless s' of Some c \<Rightarrow> c | None \<Rightarrow> False) = b"
      "length (filter is_call evs) \<le> 1"
    by blast
  have later: "detect_repeatedly rest s' = (Inr (replicate (length rest) b), s', [])"
    using detect_repeatedly_checked [OF first(2), of rest] first(3) by simp
  show ?thesis
    using first(4) by (simp add: Cons bnd_def ret_def first(1) later)
qed

lemma detect_repeatedly_explicit:
  assumes "cfg_isServerless config = Some x"
  shows "\<exists>s' evs. detect_repeatedly bes (new_ElasticVector config) =
            (Inr (replicate (length bes) x), s', evs) \<and> filter is_call evs = []"
proof (cases bes)
  case Nil
  then show ?thesis by (simp add: ret_def)
next
  case (Cons be rest)
  let ?s = "new_ElasticVector config"
  have nc: "\<not> deploymentChecked ?s" and ex: "isServerless ?s = Some x"
    using assms by (simp_all add: new_ElasticVector_def)
  note first = detectServerless_explicit [OF nc ex, of be]
  have later: "detect_repeatedly rest (?s\<lparr>deploymentChecked := True\<rparr>) =
      (Inr (replicate (length rest) x), ?s\<lparr>deploymentChecked := True\<rparr>, [])"
    using detect_repeatedly_checked [of "?s\<lparr>deploymentChecked := True\<rparr>" rest] ex by simp
  show ?thesis
    by (simp add: Cons bnd_def ret_def first later)
qed

text \<open>
  C5. Deployment detection, for calls made one after the other. Once the adapter is
  marked checked, \<^verbatim>\<open>detectServerless\<close> returns the cached flavor, changes nothing and
  sends nothing. Every call returns normally and leaves the adapter checked, with the
  flavor it returned cached. So any sequence of calls on one adapter, whatever the
  backend answers, sends at most one request, and every call of the sequence returns the
  same flavor. On an adapter constructed with an explicit flavor no request is sent at
  all and every call returns that flavor. When the introspection call fails on an
  unchecked adapter with no flavor, the call returns the standard flavor (false), caches
  it, marks the adapter checked and logs a warning; the error is not thrown.
\<close>

theorem deployment_detection_cached:
  "(deploymentChecked s \<longrightarrow>
      detectServerless be s =
        (Inr (case isServerless s of Some b \<Rightarrow> b | None \<Rightarrow> False), s, []))
   \<and> (\<exists>b s' evs. detectServerless be s = (Inr b, s', evs) \<and> deploymentChecked s'
          \<and> (case isServerless s' of Some c \<Rightarrow> c | None \<Rightarrow> False) = b)
   \<and> (\<exists>b s' evs. detect_repeatedly bes s = (Inr (replicate (length bes) b), s', evs)
          \<and> length (filter is_call evs) \<le> 1)
   \<and> (cfg_isServerless config = Some x \<longrightarrow>
        (\<exists>s' evs. detect_repeatedly bes (new_ElasticVector config) =
            (Inr (replicate (length bes) x), s', evs) \<and> filter is_call evs = []))
   \<and> (\<not> deploymentChecked s \<and> isServerless s = None \<and> client_info be = Inl e \<longrightarrow>
        detectServerless be s =
          (Inr False, s\<lparr>isServerless := Some False, deploymentChecked := True\<rparr>,
           [Call ClusterInfo JUndefined,
            Log Warn (''Could not auto-detect deployment type, assuming Standard Elasticsearch. '' @
                      ''Set isServerless: true explicitly in config if using Serverless.'')
              (JObj [(''error'', JStr (error_message e))])]))"
proof (intro conjI impI)
  assume "deploymentChecked s"
  then show "detectServerless be s =
        (Inr (case isServerless s of Some b \<Rightarrow> b | None \<Rightarrow> False), s, [])"
    by (rule detectServerless_checked)
next
  show "\<exists>b s' evs. detectServerless be s = (Inr b, s', evs) \<and> deploymentChecked s'
          \<and> (case isServerless s' of Some c \<Rightarrow> c | None \<Rightarrow> False) = b"
    using detectServerless_once [of be s] by blast
next
  show "\<exists>b s' evs. detect_repeatedly bes s = (Inr (replicate (length bes) b), s', evs)
          \<and> length (filter is_call evs) \<le> 1"
    by (rule detect_repeatedly_once)
next
  assume "cfg_isServerless config = Some x"
  then show "\<exists>s' evs. detect_repeatedly bes (new_ElasticVector config) =
            (Inr (replicate (length bes) x), s', evs) \<and> filter is_call evs = []"
    by (rule detect_repeatedly_explicit)
next
  assume "\<not> deploymentChecked s \<and> isServerless s = None \<and> client_info be = Inl e"
  then show "detectServerless be s =
          (Inr False, s\<lparr>isServerless := Some False, deploymentChecked := True\<rparr>,
           [Call ClusterInfo JUndefined,
            Log Warn (''Could not auto-detect deployment type, assuming Standard Elasticsearch. '' @
                      ''Set isServerless: true explicitly in config if using Serverless.'')
              (JObj [(''error'', JStr (error_message e))])])"
    by (simp add: detectServerless_failure)
qed

theorem deployment_detection_cached_witness:
  "\<not> deploymentChecked default_adapter \<and> isServerless default_adapter = None
   \<and> client_info unreachable_backend = Inl (Error ''connect ECONNREFUSED'')
   \<and> detectServerless unreachable_backend default_adapter =
       (Inr False, default_adapter\<lparr>isServerless := Some False, deploymentChecked := True\<rparr>,
        [Call ClusterInfo JUndefined,
         Log Warn (''Could not auto-detect deployment type, assuming Standard Elasticsearch. '' @
                   ''Set isServerless: true explicitly in config if using Serverless.'')
           (JObj [(''error'', JStr ''connect ECONNREFUSED'')])])
   \<and> detectServerless unreachable_backend
         (default_adapter\<lparr>isServerless := Some False, deploymentChecked := True\<rparr>) =
       (Inr False, default_adapter\<lparr>isServerless := Some False, deploymentChecked := True\<rparr>, [])
   \<and> (\<exists>s' evs. detect_repeatedly [unreachable_backend, unreachable_backend]
          (new_ElasticVector \<lparr>cfg_isServerless = Some True, cfg_maxCountAccuracy = None\<rparr>) =
            (Inr [True, True], s', evs) \<and> filter is_call evs = [])"
proof -
  let ?checked = "default_adapter\<lparr>isServerless := Some False, deploymentChecked := True\<rparr>"
  let ?cfg = "\<lparr>cfg_isServerless = Some True, cfg_maxCountAccuracy = None\<rparr>"
  have pre: "\<not> deploymentChecked default_adapter \<and> isServerless default_adapter = None
      \<and> client_info unreachable_backend = Inl (Error ''connect ECONNREFUSED'')"
    by (simp add: default_adapter_def new_ElasticVector_def unreachable_backend_def)
  note fresh = deployment_detection_cached [of default_adapter unreachable_backend "[]" ?cfg True
      "Error ''connect ECONNREFUSED''"]
  note cached = deployment_detection_cached [of ?checked unreachable_backend
      "[unreachable_backend, unreachable_backend]" ?cfg True "Error ''connect ECONNREFUSED''"]
  have fail: "detectServerless unreachable_backend default_adapter =
       (Inr False, ?checked,
        [Call ClusterInfo JUndefined,
         Log Warn (''Could not auto-detect deployment type, assuming Standard Elasticsearch. '' @
                   ''Set isServerless: true explicitly in config if using Serverless.'')
           (JObj [(''error'', JStr ''connect ECONNREFUSED'')])])"
    using fresh [THEN conjunct2, THEN conjunct2, THEN conjunct2, THEN conjunct2, THEN mp, OF pre]
    by simp
  have again: "detectServerless unreachable_backend ?checked = (Inr False, ?checked, [])"
    using cached [THEN conjunct1] by simp
  have explicit: "\<exists>s' evs. detect_repeatedly [unreachable_backend, unreachable_backend]
          (new_ElasticVector ?cfg) = (Inr [True, True], s', evs) \<and> filter is_call evs = []"
    using cached [THEN conjunct2, THEN conjunct2, THEN conjunct2, THEN conjunct1]
    by (simp add: numeral_2_eq_2)
  show ?thesis
    using pre fail again explicit by (intro conjI) simp_all
qed

subsection \<open>Query\<close>

lemma knn_clause_run:
  assumes f: "buildElasticFilter flt s = (Inr compiled, s, fevs)"
  shows "knn_clause qv k flt s =
     (Inr (JObj ([(''field'', JStr ''vector''), (''query_vector'', qv), (''k'', JNum (of_int k)),
                  (''num_candidates'', JNum (of_int (max (k * 10) 100)))] @
                 (if truthy flt then [(''filter'', compiled)] else []))),
      s, if truthy flt then fevs else [])"
  by (simp add: knn_clause_def bnd_def ret_def f)

lemma query_run:
  assumes knn: "knn_clause qv (case topK_opt of None \<Rightarrow> 10 | Some n \<Rightarrow> n) flt s = (Inr knn, s, fevs)"
    and req: "req = search_request indexName knn (case topK_opt of None \<Rightarrow> 10 | Some n \<Rightarrow> n)
                      (case iv_opt of None \<Rightarrow> False | Some b \<Rightarrow> b)"
  shows "query be indexName qv topK_opt flt iv_opt s =
     (case client_search be req of
        Inr response \<Rightarrow>
          (Inr (map (hit_result (case iv_opt of None \<Rightarrow> False | Some b \<Rightarrow> b)) (hits response)), s,
           fevs @
           [Call Search req,
            Log Debug (''Query returned '' @ show_nat (length (hits response)) @
                       '' results from '' @ quoted indexName) JUndefined])
      | Inl e \<Rightarrow>
          (Inl (Error (''Failed to query vectors from '' @ quoted indexName @ '': '' @ error_message e)),
           s,
           fevs @
           [Call Search req,
            Log Err (''Failed to query vectors from '' @ quoted indexName @ '': '' @ error_message e)
              JUndefined]))"
  by (cases "client_search be req")
     (simp_all add: query_def Let_def bnd_def catch_def call_def logger_def ret_def throw_def knn req)

lemma calls_to_append: "calls_to a (xs @ ys) = calls_to a xs @ calls_to a ys"
  by (induction a xs rule: calls_to.induct) auto

lemma calls_to_no_calls: "filter is_call evs = [] \<Longrightarrow> calls_to a evs = []"
  by (induction a evs rule: calls_to.induct) (auto split: if_splits)

lemma filter_leaf_quiet:
  "val \<noteq> JNull \<Longrightarrow>
     \<exists>must' evs. filter_leaf key val must s = (Inr must', s, evs) \<and> filter is_call evs = []"
  by (cases val) (simp_all add: filter_leaf_def ret_def bnd_logger)

lemma filter_loop_quiet:
  "\<exists>must' evs. filter_loop es must s = (Inr must', s, evs) \<and> filter is_call evs = []"
proof (induction es arbitrary: must)
  case Nil
  then show ?case by (simp add: ret_def)
next
  case (Cons e es)
  obtain key val where e: "e = (key, val)" by (cases e)
  show ?case
  proof (cases "val = JNull \<or> val = JUndefined")
    case True
    then show ?thesis using Cons.IH [of must] by (simp add: e)
  next
    case False
    then obtain must1 evs1 where leaf: "filter_leaf key val must s = (Inr must1, s, evs1)"
        and q1: "filter is_call evs1 = []"
      using filter_leaf_quiet by blast
    obtain must2 evs2 where rest: "filter_loop es must1 s = (Inr must2, s, evs2)"
        and q2: "filter is_call evs2 = []"
      using Cons.IH by blast
    show ?thesis using False by (simp add: e bnd_def leaf rest q1 q2)
  qed
qed

lemma buildElasticFilter_quiet:
  "\<exists>r evs. buildElasticFilter flt s = (Inr r, s, evs) \<and> filter is_call evs = []"
proof (cases "\<not> truthy flt \<or> typeof flt \<noteq> ''object''")
  case True
  then show ?thesis by (simp add: buildElasticFilter_def ret_def)
next
  case False
  then obtain entries where en: "object_entries flt = Inr entries"
    by (cases flt) auto
  obtain must evs where lp: "filter_loop entries [] s = (Inr must, s, evs)"
      and q: "filter is_call evs = []"
    using filter_loop_quiet by blast
  show ?thesis using False
    by (simp add: buildElasticFilter_def en bnd_def lift_def lp ret_def q)
qed

text \<open>
  C7. \<^verbatim>\<open>query\<close> sends exactly one search request. Its k-NN clause has \<^verbatim>\<open>k\<close> equal
  to \<open>topK\<close> (10 when the parameter is absent) and \<^verbatim>\<open>num_candidates\<close> equal to
  \<open>max (topK * 10) 100\<close>, which is at least ten times \<open>topK\<close> and at least 100. When a
  filter is supplied (a truthy value), what \<^verbatim>\<open>buildElasticFilter\<close> returns for it is
  the \<^verbatim>\<open>filter\<close> property of the k-NN clause; otherwise the clause has no such
  property.
\<close>

theorem query_knn_request:
  assumes "k = (case topK_opt of None \<Rightarrow> 10 | Some n \<Rightarrow> n)"
    and "iv = (case iv_opt of None \<Rightarrow> False | Some b \<Rightarrow> b)"
  shows "\<exists>compiled. outcome (buildElasticFilter flt s) = Inr compiled
     \<and> calls_to Search (events (query be indexName qv topK_opt flt iv_opt s)) =
         [JObj
            [(''index'', JStr indexName),
             (''knn'', JObj
                ([(''field'', JStr ''vector''),
                  (''query_vector'', qv),
                  (''k'', JNum (of_int k)),
                  (''num_candidates'', JNum (of_int (max (k * 10) 100)))] @
                 (if truthy flt then [(''filter'', compiled)] else []))),
             (''size'', JNum (of_int k)),
             (''_source'', JArr (JStr ''metadata'' # (if iv then [JStr ''vector''] else [])))]]
     \<and> k * 10 \<le> max (k * 10) 100 \<and> 100 \<le> max (k * 10) 100"
proof -
  obtain compiled fevs where f: "buildElasticFilter flt s = (Inr compiled, s, fevs)"
      and quiet: "filter is_call fevs = []"
    using buildElasticFilter_quiet by blast
  let ?knn = "JObj ([(''field'', JStr ''vector''), (''query_vector'', qv), (''k'', JNum (of_int k)),
                  (''num_candidates'', JNum (of_int (max (k * 10) 100)))] @
                 (if truthy flt then [(''filter'', compiled)] else []))"
  let ?fevs = "if truthy flt then fevs else []"
  let ?req = "search_request indexName ?knn k iv"
  have knn: "knn_clause qv (case topK_opt of None \<Rightarrow> 10 | Some n \<Rightarrow> n) flt s = (Inr ?knn, s, ?fevs)"
    using knn_clause_run [OF f, of qv k] assms(1) by simp
  have req: "?req = search_request indexName ?knn (case topK_opt of None \<Rightarrow> 10 | Some n \<Rightarrow> n)
                      (case iv_opt of None \<Rightarrow> False | Some b \<Rightarrow> b)"
    using assms by simp
  have q: "calls_to Search ?fevs = []"
    using quiet by (simp add: calls_to_no_calls)
  have "calls_to Search (events (query be indexName qv topK_opt flt iv_opt s)) = [?req]"
    unfolding query_run [OF knn req]
    by (cases "client_search be ?req") (simp_all add: events_def calls_to_append q)
  then show ?thesis
    by (simp add: f outcome_def search_request_def)
qed

theorem query_knn_request_witness:
  "calls_to Search (events
     (query sample_backend ''memory'' (JArr [JNum 1, JNum 0]) (Some 3)
        (JObj [(''resource_id'', JStr ''u1'')]) None default_adapter)) =
     [JObj
        [(''index'', JStr ''memory''),
         (''knn'', JObj
            [(''field'', JStr ''vector''),
             (''query_vector'', JArr [JNum 1, JNum 0]),
             (''k'', JNum 3),
             (''num_candidates'', JNum 100),
             (''filter'', JObj [(''bool'', JObj [(''must'', JArr
                [JObj [(''term'', JObj [(''metadata.resource_id.keyword'', JStr ''u1'')])]])])])]),
         (''size'', JNum 3),
         (''_source'', JArr [JStr ''metadata''])]]"
proof -
  let ?flt = "JObj [(''resource_id'', JStr ''u1'')]"
  from query_knn_request [of 3 "Some 3" False None ?flt default_adapter sample_backend
      "''memory''" "JArr [JNum 1, JNum 0]"]
  obtain compiled where c: "outcome (buildElasticFilter ?flt default_adapter) = Inr compiled"
    and calls: "calls_to Search (events
       (query sample_backend ''memory'' (JArr [JNum 1, JNum 0]) (Some 3) ?flt None default_adapter)) =
       [JObj
          [(''index'', JStr ''memory''),
           (''knn'', JObj
              ([(''field'', JStr ''vector''),
                (''query_vector'', JArr [JNum 1, JNum 0]),
                (''k'', JNum (of_int 3)),
                (''num_candidates'', JNum (of_int (max (3 * 10) 100)))] @
               (if truthy ?flt then [(''filter'', compiled)] else []))),
           (''size'', JNum (of_int 3)),
           (''_source'', JArr (JStr ''metadata'' # (if False then [JStr ''vector''] else [])))]]"
    by auto
  have leaf: "filter_leaf ''resource_id'' (JStr ''u1'') [] default_adapter =
      (Inr [JObj [(''term'', JObj [(''metadata.resource_id.keyword'', JStr ''u1'')])]], default_adapter, [])"
    using filter_leaf_literal [of "JStr ''u1''" "''resource_id''" "[]" default_adapter] by simp
  have "buildElasticFilter ?flt default_adapter =
      (Inr (JObj [(''bool'', JObj [(''must'', JArr
          [JObj [(''term'', JObj [(''metadata.resource_id.keyword'', JStr ''u1'')])]])])]),
       default_adapter, [])"
    using leaf by (intro buildElasticFilter_single) simp_all
  with c have "compiled = JObj [(''bool'', JObj [(''must'', JArr
          [JObj [(''term'', JObj [(''metadata.resource_id.keyword'', JStr ''u1'')])]])])]"
    by (simp add: outcome_def)
  with calls show ?thesis by simp
qed

lemma hit_result_props:
  "get_prop (hit_result iv hit) ''id'' = hit_id hit"
  "get_prop (hit_result iv hit) ''score'' = js_or (hit_score hit) (JNum 0)"
  "get_prop (hit_result iv hit) ''metadata'' = js_or (opt_prop (hit_source hit) ''metadata'') (JObj [])"
  "get_prop (hit_result iv hit) ''vector'' =
     (if iv then opt_prop (hit_source hit) ''vector'' else JUndefined)"
  by (simp_all add: hit_result_def)

lemma query_results:
  assumes "outcome (query be indexName qv topK_opt flt iv_opt s) = Inr results"
  shows "\<exists>req (response :: search_response). client_search be req = Inr response \<and> results =
           map (hit_result (case iv_opt of None \<Rightarrow> False | Some b \<Rightarrow> b)) (hits response)"
proof -
  obtain compiled fevs where f: "buildElasticFilter flt s = (Inr compiled, s, fevs)"
    using buildElasticFilter_total by blast
  let ?k = "case topK_opt of None \<Rightarrow> 10 | Some n \<Rightarrow> n"
  let ?iv = "case iv_opt of None \<Rightarrow> False | Some b \<Rightarrow> b"
  let ?knn = "JObj ([(''field'', JStr ''vector''), (''query_vector'', qv), (''k'', JNum (of_int ?k)),
                  (''num_candidates'', JNum (of_int (max (?k * 10) 100)))] @
                 (if truthy flt then [(''filter'', compiled)] else []))"
  let ?req = "search_request indexName ?knn ?k ?iv"
  note run = query_run [OF knn_clause_run [OF f, of qv ?k] refl, of be indexName iv_opt]
  show ?thesis
  proof (cases "client_search be ?req")
    case (Inl e)
    with assms show ?thesis unfolding run by (simp add: outcome_def)
  next
    case (Inr response)
    with assms have "results = map (hit_result ?iv) (hits response)"
      unfolding run by (simp add: outcome_def)
    with Inr show ?thesis by blast
  qed
qed

text \<open>
  C10. Every result that \<^verbatim>\<open>query\<close> returns is made of a hit of the backend's answer:
  its score is the hit's score when that is truthy and 0 otherwise, so 0 when the hit
  carries no score; its metadata is the hit's \<^verbatim>\<open>_source?.metadata\<close> when that is
  truthy and the empty object otherwise, so the empty object when the hit carries none;
  neither is ever null or undefined. Its vector is the hit's \<^verbatim>\<open>_source?.vector\<close>
  when \<^verbatim>\<open>includeVector\<close> is true and undefined otherwise.
\<close>

theorem query_results_total:
  assumes "outcome (query be indexName qv topK_opt flt iv_opt s) = Inr results"
    and "r \<in> set results"
    and "iv = (case iv_opt of None \<Rightarrow> False | Some b \<Rightarrow> b)"
  shows "\<exists>req (response :: search_response) (hit :: search_hit).
           client_search be req = Inr response \<and> hit \<in> set (hits response)
         \<and> r = hit_result iv hit
         \<and> get_prop r ''id'' = hit_id hit
         \<and> get_prop r ''score'' = (if truthy (hit_score hit) then hit_score hit else JNum 0)
         \<and> get_prop r ''metadata'' =
             (if truthy (opt_prop (hit_source hit) ''metadata'')
              then opt_prop (hit_source hit) ''metadata'' else JObj [])
         \<and> get_prop r ''vector'' = (if iv then opt_prop (hit_source hit) ''vector'' else JUndefined)
         \<and> (hit_score hit = JUndefined \<or> hit_score hit = JNull \<longrightarrow> get_prop r ''score'' = JNum 0)
         \<and> (opt_prop (hit_source hit) ''metadata'' = JUndefined \<or>
              opt_prop (hit_source hit) ''metadata'' = JNull \<longrightarrow> get_prop r ''metadata'' = JObj [])
         \<and> get_prop r ''score'' \<noteq> JUndefined \<and> get_prop r ''score'' \<noteq> JNull
         \<and> get_prop r ''metadata'' \<noteq> JUndefined \<and> get_prop r ''metadata'' \<noteq> JNull
         \<and> (\<not> iv \<longrightarrow> get_prop r ''vector'' = JUndefined)"
proof -
  from query_results [OF assms(1)] obtain req and response :: search_response where
    resp: "client_search be req = Inr response"
    and res: "results = map (hit_result iv) (hits response)"
    using assms(3) by auto
  from assms(2) res obtain hit where hit: "hit \<in> set (hits response)" "r = hit_result iv hit"
    by auto
  have score: "get_prop r ''score'' = (if truthy (hit_score hit) then hit_score hit else JNum 0)"
    by (simp add: hit(2) hit_result_props js_or_def)
  have meta: "get_prop r ''metadata'' =
             (if truthy (opt_prop (hit_source hit) ''metadata'')
              then opt_prop (hit_source hit) ''metadata'' else JObj [])"
    by (simp add: hit(2) hit_result_props js_or_def)
  have vec: "get_prop r ''vector'' = (if iv then opt_prop (hit_source hit) ''vector'' else JUndefined)"
    by (simp add: hit(2) hit_result_props)
  have ident: "get_prop r ''id'' = hit_id hit"
    by (simp add: hit(2) hit_result_props)
  have s1: "hit_score hit = JUndefined \<or> hit_score hit = JNull \<longrightarrow> get_prop r ''score'' = JNum 0"
    using score by auto
  have m1: "opt_prop (hit_source hit) ''metadata'' = JUndefined \<or>
              opt_prop (hit_source hit) ''metadata'' = JNull \<longrightarrow> get_prop r ''metadata'' = JObj []"
    using meta by auto
  have s2: "get_prop r ''score'' \<noteq> JUndefined \<and> get_prop r ''score'' \<noteq> JNull"
    using score by (cases "hit_score hit") (auto split: if_splits)
  have m2: "get_prop r ''metadata'' \<noteq> JUndefined \<and> get_prop r ''metadata'' \<noteq> JNull"
    using meta by (cases "opt_prop (hit_source hit) ''metadata''") (auto split: if_splits)
  have v1: "\<not> iv \<longrightarrow> get_prop r ''vector'' = JUndefined"
    using vec by simp
  show ?thesis
    using resp hit ident score meta vec s1 m1 s2 m2 v1 by blast
qed

lemma buildElasticFilter_falsy:
  "\<not> truthy flt \<Longrightarrow> buildElasticFilter flt s = (Inr JUndefined, s, [])"
  by (simp add: buildElasticFilter_def ret_def)

lemma query_sample:
  "outcome (query sample_backend ''memory'' (JArr [JNum 1, JNum 0]) None JUndefined None default_adapter) =
     Inr [JObj [(''id'', JStr ''m1''), (''score'', JNum 0.9),
                (''metadata'', JObj [(''role'', JStr ''user'')]), (''vector'', JUndefined)],
          JObj [(''id'', JStr ''m2''), (''score'', JNum 0),
                (''metadata'', JObj []), (''vector'', JUndefined)]]"
proof -
  have f: "buildElasticFilter JUndefined default_adapter = (Inr JUndefined, default_adapter, [])"
    by (simp add: buildElasticFilter_falsy)
  note run = query_run [OF knn_clause_run [OF f, of "JArr [JNum 1, JNum 0]"
        "case (None :: int option) of None \<Rightarrow> 10 | Some n \<Rightarrow> n"] refl,
      of sample_backend "''memory''" None]
  have s: "client_search sample_backend req = Inr \<lparr>hits = sample_hits\<rparr>" for req
    by (simp add: sample_backend_def)
  show ?thesis
    using run
    by (simp add: s outcome_def sample_hits_def hit_result_def js_or_def opt_prop_def)
qed

theorem query_results_total_witness:
  "outcome (query sample_backend ''memory'' (JArr [JNum 1, JNum 0]) None JUndefined None default_adapter) =
     Inr [JObj [(''id'', JStr ''m1''), (''score'', JNum 0.9),
                (''metadata'', JObj [(''role'', JStr ''user'')]), (''vector'', JUndefined)],
          JObj [(''id'', JStr ''m2''), (''score'', JNum 0),
                (''metadata'', JObj []), (''vector'', JUndefined)]]
   \<and> (\<exists>req (response :: search_response) (hit :: search_hit).
         client_search sample_backend req = Inr response \<and> hit \<in> set (hits response)
       \<and> JObj [(''id'', JStr ''m2''), (''score'', JNum 0),
                (''metadata'', JObj []), (''vector'', JUndefined)] = hit_result False hit
       \<and> hit_score hit = JUndefined \<and> opt_prop (hit_source hit) ''metadata'' = JUndefined)"
proof -
  let ?r2 = "JObj [(''id'', JStr ''m2''), (''score'', JNum 0),
                (''metadata'', JObj []), (''vector'', JUndefined)]"
  note out = query_sample
  have mem: "?r2 \<in> set [JObj [(''id'', JStr ''m1''), (''score'', JNum 0.9),
                (''metadata'', JObj [(''role'', JStr ''user'')]), (''vector'', JUndefined)], ?r2]"
    by simp
  from query_results_total [OF out mem refl]
  obtain req and response :: search_response and hit :: search_hit where
    h: "client_search sample_backend req = Inr response" "hit \<in> set (hits response)"
      "?r2 = hit_result False hit"
    by auto
  from h(1) have "response = \<lparr>hits = sample_hits\<rparr>"
    by (simp add: sample_backend_def)
  with h(2) consider
      "hit = \<lparr>hit_id = JStr ''m1'', hit_score = JNum 0.9,
               hit_source = JObj [(''metadata'', JObj [(''role'', JStr ''user'')]),
                                  (''vector'', JArr [JNum 1, JNum 0])]\<rparr>"
    | "hit = \<lparr>hit_id = JStr ''m2'', hit_score = JUndefined, hit_source = JUndefined\<rparr>"
    by (auto simp: sample_hits_def)
  then have "hit_score hit = JUndefined \<and> opt_prop (hit_source hit) ''metadata'' = JUndefined"
  proof cases
    case 1
    with h(3) show ?thesis by (simp add: hit_result_def)
  next
    case 2
    then show ?thesis by (simp add: opt_prop_def)
  qed
  with h out show ?thesis by blast
qed

lemma query_calls:
  assumes f: "buildElasticFilter flt s = (Inr compiled, s, fevs)"
    and quiet: "filter is_call fevs = []"
  shows "calls_to Search (events (query be indexName qv topK_opt flt iv_opt s)) =
     [search_request indexName
        (JObj ([(''field'', JStr ''vector''), (''query_vector'', qv),
                (''k'', JNum (of_int (case topK_opt of None \<Rightarrow> 10 | Some n \<Rightarrow> n))),
                (''num_candidates'',
                   JNum (of_int (max ((case topK_opt of None \<Rightarrow> 10 | Some n \<Rightarrow> n) * 10) 100)))] @
               (if truthy flt then [(''filter'', compiled)] else [])))
        (case topK_opt of None \<Rightarrow> 10 | Some n \<Rightarrow> n)
        (case iv_opt of None \<Rightarrow> False | Some b \<Rightarrow> b)]"
proof -
  let ?k = "case topK_opt of None \<Rightarrow> 10 | Some n \<Rightarrow> n"
  let ?iv = "case iv_opt of None \<Rightarrow> False | Some b \<Rightarrow> b"
  let ?knn = "JObj ([(''field'', JStr ''vector''), (''query_vector'', qv), (''k'', JNum (of_int ?k)),
                  (''num_candidates'', JNum (of_int (max (?k * 10) 100)))] @
                 (if truthy flt then [(''filter'', compiled)] else []))"
  let ?req = "search_request indexName ?knn ?k ?iv"
  note run = query_run [OF knn_clause_run [OF f, of qv ?k] refl, of be indexName iv_opt]
  have q: "calls_to Search (if truthy flt then fevs else []) = []"
    using quiet by (simp add: calls_to_no_calls)
  show ?thesis
    unfolding run
    by (cases "client_search be ?req") (simp_all add: events_def calls_to_append q)
qed

lemma filter_loop_nullish:
  "filter_loop es must = filter_loop (filter (\<lambda>e. \<not> nullish_entry e) es) must"
proof (induction es arbitrary: must)
  case Nil
  then show ?case by simp
next
  case (Cons e es)
  obtain key val where e: "e = (key, val)" by (cases e)
  have "filter_loop es = filter_loop (filter (\<lambda>e. \<not> nullish_entry e) es)"
    by (rule ext) (rule Cons.IH)
  then show ?case by (simp add: e)
qed

lemma filter_loop_all_nullish:
  "\<forall>e \<in> set es. nullish_entry e \<Longrightarrow> filter_loop es must = ret must"
  by (induction es must rule: filter_loop.induct) auto

text \<open>
  C9. An entry of the filter whose value is null or undefined contributes nothing: the
  loop passes over it with the collected predicates unchanged and without logging, so a
  filter object compiles (result, state and trace) to what the object without these
  entries compiles to. A filter object all of whose entries are such compiles to
  undefined with nothing logged, and \<^verbatim>\<open>query\<close> with it sends one search request
  whose k-NN clause has \<^verbatim>\<open>filter\<close> undefined: no predicate on the metadata at all.
\<close>

theorem nullish_entries_skipped:
  "(nullish_entry (k, v) \<longrightarrow> filter_loop ((k, v) # rest) must = filter_loop rest must)
   \<and> buildElasticFilter (JObj es) = buildElasticFilter (JObj (filter (\<lambda>e. \<not> nullish_entry e) es))
   \<and> ((\<forall>e \<in> set es. nullish_entry e) \<longrightarrow>
        buildElasticFilter (JObj es) s = (Inr JUndefined, s, [])
        \<and> calls_to Search (events (query be indexName qv topK_opt (JObj es) iv_opt s)) =
            [search_request indexName
               (JObj [(''field'', JStr ''vector''), (''query_vector'', qv),
                      (''k'', JNum (of_int (case topK_opt of None \<Rightarrow> 10 | Some n \<Rightarrow> n))),
                      (''num_candidates'',
                         JNum (of_int (max ((case topK_opt of None \<Rightarrow> 10 | Some n \<Rightarrow> n) * 10) 100))),
                      (''filter'', JUndefined)])
               (case topK_opt of None \<Rightarrow> 10 | Some n \<Rightarrow> n)
               (case iv_opt of None \<Rightarrow> False | Some b \<Rightarrow> b)])"
proof (intro conjI impI)
  assume "nullish_entry (k, v)"
  then show "filter_loop ((k, v) # rest) must = filter_loop rest must" by auto
next
  show "buildElasticFilter (JObj es) = buildElasticFilter (JObj (filter (\<lambda>e. \<not> nullish_entry e) es))"
    using filter_loop_nullish [of es "[]"] by (simp add: buildElasticFilter_def)
next
  assume all: "\<forall>e \<in> set es. nullish_entry e"
  then have "filter_loop es [] = ret []" by (rule filter_loop_all_nullish)
  then show f: "buildElasticFilter (JObj es) s = (Inr JUndefined, s, [])"
    by (simp add: buildElasticFilter_def bnd_def lift_def ret_def)
  show "calls_to Search (events (query be indexName qv topK_opt (JObj es) iv_opt s)) =
            [search_request indexName
               (JObj [(''field'', JStr ''vector''), (''query_vector'', qv),
                      (''k'', JNum (of_int (case topK_opt of None \<Rightarrow> 10 | Some n \<Rightarrow> n))),
                      (''num_candidates'',
                         JNum (of_int (max ((case topK_opt of None \<Rightarrow> 10 | Some n \<Rightarrow> n) * 10) 100))),
                      (''filter'', JUndefined)])
               (case topK_opt of None \<Rightarrow> 10 | Some n \<Rightarrow> n)
               (case iv_opt of None \<Rightarrow> False | Some b \<Rightarrow> b)]"
    using query_calls [OF f, of be indexName qv topK_opt iv_opt] by simp
qed

theorem nullish_entries_skipped_witness:
  "nullish_entry (''a'', JNull)
   \<and> filter_loop [(''a'', JNull), (''b'', JStr ''x'')] [] = filter_loop [(''b'', JStr ''x'')] []
   \<and> buildElasticFilter (JObj [(''a'', JNull), (''b'', JStr ''x''), (''c'', JUndefined)]) =
       buildElasticFilter (JObj [(''b'', JStr ''x'')])
   \<and> buildElasticFilter (JObj [(''a'', JNull), (''c'', JUndefined)]) default_adapter =
       (Inr JUndefined, default_adapter, [])
   \<and> calls_to Search (events (query sample_backend ''memory'' (JArr [JNum 1, JNum 0]) None
         (JObj [(''a'', JNull), (''c'', JUndefined)]) None default_adapter)) =
       [JObj [(''index'', JStr ''memory''),
              (''knn'', JObj [(''field'', JStr ''vector''), (''query_vector'', JArr [JNum 1, JNum 0]),
                              (''k'', JNum 10), (''num_candidates'', JNum 100),
                              (''filter'', JUndefined)]),
              (''size'', JNum 10),
              (''_source'', JArr [JStr ''metadata''])]]"
proof -
  have n: "nullish_entry (''a'', JNull)" by simp
  have all: "\<forall>e \<in> set [(''a'', JNull), (''c'', JUndefined)]. nullish_entry e" by simp
  note one = nullish_entries_skipped [of "''a''" JNull "[(''b'', JStr ''x'')]" "[]"
      "[(''a'', JNull), (''b'', JStr ''x''), (''c'', JUndefined)]"]
  note two = nullish_entries_skipped [of "''a''" JNull "[]" "[]" "[(''a'', JNull), (''c'', JUndefined)]"
      default_adapter sample_backend "''memory''" "JArr [JNum 1, JNum 0]" None None]
  have a: "filter_loop [(''a'', JNull), (''b'', JStr ''x'')] [] = filter_loop [(''b'', JStr ''x'')] []"
    using one [THEN conjunct1] n by (rule mp)
  have b: "buildElasticFilter (JObj [(''a'', JNull), (''b'', JStr ''x''), (''c'', JUndefined)]) =
       buildElasticFilter (JObj [(''b'', JStr ''x'')])"
    using one [THEN conjunct2, THEN conjunct1] by simp
  note c = two [THEN conjunct2, THEN conjunct2, THEN mp, OF all]
  have d: "calls_to Search (events (query sample_backend ''memory'' (JArr [JNum 1, JNum 0]) None
         (JObj [(''a'', JNull), (''c'', JUndefined)]) None default_adapter)) =
       [JObj [(''index'', JStr ''memory''),
              (''knn'', JObj [(''field'', JStr ''vector''), (''query_vector'', JArr [JNum 1, JNum 0]),
                              (''k'', JNum 10), (''num_candidates'', JNum 100),
                              (''filter'', JUndefined)]),
              (''size'', JNum 10),
              (''_source'', JArr [JStr ''metadata''])]]"
    using c [THEN conjunct2] by (simp add: search_request_def)
  show ?thesis
    using n a b c [THEN conjunct1] d by (intro conjI)
qed

subsection \<open>Updating a vector\<close>

lemma updateVector_noop:
  assumes "\<not> truthy v" "\<not> truthy m"
  shows "updateVector be indexName vecId v m s =
           (Inr (), s,
            [Log Warn (''Update called for vector '' @ quoted vecId @ '' with no changes'') JUndefined])"
  using assms by (simp add: updateVector_def catch_def logger_def)

lemma updateVector_request:
  assumes "truthy v \<or> truthy m"
    and "doc = JObj ((if truthy v then [(''vector'', v)] else []) @
                     (if truthy m then [(''metadata'', m)] else []))"
    and "req = JObj [(''index'', JStr indexName), (''id'', JStr vecId),
                     (''body'', JObj [(''doc'', doc)]), (''refresh'', JBool True)]"
  shows "updateVector be indexName vecId v m s =
     (case client_update be req of
        Inr u \<Rightarrow>
          (Inr (), s,
           [Call Update req,
            Log Info (''Successfully updated vector '' @ quoted vecId @ '' in index '' @
                      quoted indexName) JUndefined])
      | Inl e \<Rightarrow>
          (Inl (Error (''Failed to update vector '' @ quoted vecId @ '' in '' @ quoted indexName @
                       '': '' @ error_message e)),
           s,
           [Call Update req,
            Log Err (''Failed to update vector '' @ quoted vecId @ '' in '' @ quoted indexName @
                     '': '' @ error_message e) JUndefined]))"
  using assms(1) unfolding assms(2,3)
  by (cases "truthy v"; cases "truthy m";
      cases "client_update be (JObj [(''index'', JStr indexName), (''id'', JStr vecId),
                     (''body'', JObj [(''doc'', JObj ((if truthy v then [(''vector'', v)] else []) @
                     (if truthy m then [(''metadata'', m)] else [])))]), (''refresh'', JBool True)])")
     (simp_all add: updateVector_def eff_defs Let_def)

lemma updateVector_calls:
  assumes "truthy v \<or> truthy m"
  shows "filter is_call (events (updateVector be indexName vecId v m s)) =
     [Call Update (JObj [(''index'', JStr indexName), (''id'', JStr vecId),
        (''body'', JObj [(''doc'', JObj ((if truthy v then [(''vector'', v)] else []) @
                                          (if truthy m then [(''metadata'', m)] else [])))]),
        (''refresh'', JBool True)])]"
proof -
  let ?req = "JObj [(''index'', JStr indexName), (''id'', JStr vecId),
        (''body'', JObj [(''doc'', JObj ((if truthy v then [(''vector'', v)] else []) @
                                          (if truthy m then [(''metadata'', m)] else [])))]),
        (''refresh'', JBool True)]"
  show ?thesis
    unfolding updateVector_request [OF assms refl refl]
    by (cases "client_update be ?req") (simp_all add: events_def)
qed

text \<open>
  C8. \<^verbatim>\<open>updateVector\<close> sends a partial update. With a vector and no metadata (a truthy
  \<^verbatim>\<open>update.vector\<close>, a falsy \<^verbatim>\<open>update.metadata\<close>, as undefined is) the one request
  it sends is an update whose \<^verbatim>\<open>doc\<close> has the single property \<^verbatim>\<open>vector\<close>; with
  metadata and no vector, the single property \<^verbatim>\<open>metadata\<close>: the other field of the
  stored record is not named in the request. With neither, no request is sent: the call
  logs one warning, leaves the adapter as it was and returns normally.
\<close>

theorem update_is_partial:
  "(truthy v \<and> \<not> truthy m \<longrightarrow>
      filter is_call (events (updateVector be indexName vecId v m s)) =
        [Call Update (JObj [(''index'', JStr indexName), (''id'', JStr vecId),
                            (''body'', JObj [(''doc'', JObj [(''vector'', v)])]),
                            (''refresh'', JBool True)])])
   \<and> (\<not> truthy v \<and> truthy m \<longrightarrow>
      filter is_call (events (updateVector be indexName vecId v m s)) =
        [Call Update (JObj [(''index'', JStr indexName), (''id'', JStr vecId),
                            (''body'', JObj [(''doc'', JObj [(''metadata'', m)])]),
                            (''refresh'', JBool True)])])
   \<and> (\<not> truthy v \<and> \<not> truthy m \<longrightarrow>
      updateVector be indexName vecId v m s =
        (Inr (), s,
         [Log Warn (''Update called for vector '' @ quoted vecId @ '' with no changes'') JUndefined]))"
proof (intro conjI impI)
  assume "truthy v \<and> \<not> truthy m"
  then show "filter is_call (events (updateVector be indexName vecId v m s)) =
        [Call Update (JObj [(''index'', JStr indexName), (''id'', JStr vecId),
                            (''body'', JObj [(''doc'', JObj [(''vector'', v)])]),
                            (''refresh'', JBool True)])]"
    using updateVector_calls [of v m be indexName vecId s] by simp
next
  assume "\<not> truthy v \<and> truthy m"
  then show "filter is_call (events (updateVector be indexName vecId v m s)) =
        [Call Update (JObj [(''index'', JStr indexName), (''id'', JStr vecId),
                            (''body'', JObj [(''doc'', JObj [(''metadata'', m)])]),
                            (''refresh'', JBool True)])]"
    using updateVector_calls [of v m be indexName vecId s] by simp
next
  assume "\<not> truthy v \<and> \<not> truthy m"
  then show "updateVector be indexName vecId v m s =
        (Inr (), s,
         [Log Warn (''Update called for vector '' @ quoted vecId @ '' with no changes'') JUndefined])"
    by (simp add: updateVector_noop)
qed

theorem update_is_partial_witness:
  "filter is_call (events (updateVector sample_backend ''memory'' ''m1''
       (JArr [JNum 1, JNum 0]) JUndefined default_adapter)) =
     [Call Update (JObj [(''index'', JStr ''memory''), (''id'', JStr ''m1''),
                         (''body'', JObj [(''doc'', JObj [(''vector'', JArr [JNum 1, JNum 0])])]),
                         (''refresh'', JBool True)])]
   \<and> filter is_call (events (updateVector sample_backend ''memory'' ''m1''
       JUndefined (JObj [(''role'', JStr ''user'')]) default_adapter)) =
     [Call Update (JObj [(''index'', JStr ''memory''), (''id'', JStr ''m1''),
                         (''body'', JObj [(''doc'', JObj [(''metadata'', JObj [(''role'', JStr ''user'')])])]),
                         (''refresh'', JBool True)])]
   \<and> updateVector sample_backend ''memory'' ''m1'' JUndefined JUndefined default_adapter =
     (Inr (), default_adapter,
      [Log Warn (''Update called for vector '' @ quoted ''m1'' @ '' with no changes'') JUndefined])"
proof -
  have a: "truthy (JArr [JNum 1, JNum 0]) \<and> \<not> truthy JUndefined" by simp
  have b: "\<not> truthy JUndefined \<and> truthy (JObj [(''role'', JStr ''user'')])" by simp
  have c: "\<not> truthy JUndefined \<and> \<not> truthy JUndefined" by simp
  note one = update_is_partial [of "JArr [JNum 1, JNum 0]" JUndefined sample_backend "''memory''"
      "''m1''" default_adapter, THEN conjunct1, THEN mp, OF a]
  note two = update_is_partial [of JUndefined "JObj [(''role'', JStr ''user'')]" sample_backend
      "''memory''" "''m1''" default_adapter, THEN conjunct2, THEN conjunct1, THEN mp, OF b]
  note three = update_is_partial [of JUndefined JUndefined sample_backend "''memory''" "''m1''"
      default_adapter, THEN conjunct2, THEN conjunct2, THEN mp, OF c]
  show ?thesis
    using one two three by (intro conjI)
qed

subsection \<open>Creating an index that exists\<close>

lemma createIndex_existing:
  assumes ex: "client_exists be (JObj [(''index'', JStr indexName)]) = Inr True"
    and v: "validate indexName dimension (case metric_opt of None \<Rightarrow> ''cosine'' | Some m \<Rightarrow> m) s = (r, s1, evs)"
  shows "createIndex validate be indexName dimension metric_opt s =
     (case r of
        Inr u \<Rightarrow>
          (Inr (), s1,
           Call IndicesExists (JObj [(''index'', JStr indexName)]) # evs @
           [Log Info (''Index '' @ quoted indexName @ '' already exists and is valid'') JUndefined])
      | Inl e \<Rightarrow>
          (Inl (Error (''Failed to create index '' @ quoted indexName @ '': '' @
                       ''Index '' @ quoted indexName @
                       '' exists but does not match the required configuration: '' @
                       error_message e)),
           s1,
           Call IndicesExists (JObj [(''index'', JStr indexName)]) # evs @
           [Log Err (''Failed to create index '' @ quoted indexName @ '': '' @
                     ''Index '' @ quoted indexName @
                     '' exists but does not match the required configuration: '' @
                     error_message e) JUndefined]))"
  by (cases r) (simp_all add: createIndex_def eff_defs ex v Let_def)

lemma validateExistingIndex_run:
  "validateExistingIndex existing indexName dimension metric s =
     (if existing = (dimension, metric) then (Inr (), s, [])
      else (Inl (Error (''dimension or metric mismatch for index '' @ quoted indexName)), s, []))"
  by (cases existing) (simp add: validateExistingIndex_def ret_def throw_def)

text \<open>
  C2. \<^verbatim>\<open>createIndex\<close> on a name that exists. With the validation of the spec (a
  mismatch of dimension or metric is an error): if the existing index's dimension or
  metric differs from the requested one (the metric being cosine when none is given),
  \<^verbatim>\<open>createIndex\<close> throws an error whose message begins
  \<^verbatim>\<open>Failed to create index "<name>": Index "<name>" exists but does not match the required configuration\<close>,
  and the only request it has sent is the existence check; if they agree it returns
  normally, again with the existence check as its only request. Either way no
  \<^verbatim>\<open>indices.create\<close> request is sent. For \<^verbatim>\<open>createIndex\<close> itself, whatever the
  inherited validation does: when the validation throws, \<^verbatim>\<open>createIndex\<close> throws with
  that message appended, and when it returns, \<^verbatim>\<open>createIndex\<close> returns; in both cases
  it adds no \<^verbatim>\<open>indices.create\<close> request to those (if any) of the validation.
\<close>

theorem createIndex_existing_index:
  assumes "client_exists be (JObj [(''index'', JStr indexName)]) = Inr True"
    and "metric = (case metric_opt of None \<Rightarrow> ''cosine'' | Some m \<Rightarrow> m)"
  shows
    "(existing \<noteq> (dimension, metric) \<longrightarrow>
        createIndex (validateExistingIndex existing) be indexName dimension metric_opt s =
          (Inl (Error (''Failed to create index '' @ quoted indexName @ '': '' @
                       ''Index '' @ quoted indexName @
                       '' exists but does not match the required configuration: '' @
                       ''dimension or metric mismatch for index '' @ quoted indexName)),
           s,
           [Call IndicesExists (JObj [(''index'', JStr indexName)]),
            Log Err (''Failed to create index '' @ quoted indexName @ '': '' @
                     ''Index '' @ quoted indexName @
                     '' exists but does not match the required configuration: '' @
                     ''dimension or metric mismatch for index '' @ quoted indexName) JUndefined]))
     \<and> (existing = (dimension, metric) \<longrightarrow>
        createIndex (validateExistingIndex existing) be indexName dimension metric_opt s =
          (Inr (), s,
           [Call IndicesExists (JObj [(''index'', JStr indexName)]),
            Log Info (''Index '' @ quoted indexName @ '' already exists and is valid'') JUndefined]))
     \<and> calls_to IndicesCreate
          (events (createIndex (validateExistingIndex existing) be indexName dimension metric_opt s)) = []
     \<and> (\<forall>e s1 evs. validate indexName dimension metric s = (Inl e, s1, evs) \<longrightarrow>
          outcome (createIndex validate be indexName dimension metric_opt s) =
            Inl (Error (''Failed to create index '' @ quoted indexName @ '': '' @
                        ''Index '' @ quoted indexName @
                        '' exists but does not match the required configuration: '' @
                        error_message e))
          \<and> calls_to IndicesCreate (events (createIndex validate be indexName dimension metric_opt s)) =
              calls_to IndicesCreate evs)
     \<and> (\<forall>s1 evs. validate indexName dimension metric s = (Inr (), s1, evs) \<longrightarrow>
          outcome (createIndex validate be indexName dimension metric_opt s) = Inr ()
          \<and> calls_to IndicesCreate (events (createIndex validate be indexName dimension metric_opt s)) =
              calls_to IndicesCreate evs)"
proof -
  note ex = assms(1)
  have mismatch: "createIndex (validateExistingIndex existing) be indexName dimension metric_opt s =
          (Inl (Error (''Failed to create index '' @ quoted indexName @ '': '' @
                       ''Index '' @ quoted indexName @
                       '' exists but does not match the required configuration: '' @
                       ''dimension or metric mismatch for index '' @ quoted indexName)),
           s,
           [Call IndicesExists (JObj [(''index'', JStr indexName)]),
            Log Err (''Failed to create index '' @ quoted indexName @ '': '' @
                     ''Index '' @ quoted indexName @
                     '' exists but does not match the required configuration: '' @
                     ''dimension or metric mismatch for index '' @ quoted indexName) JUndefined])"
    if "existing \<noteq> (dimension, metric)"
  proof -
    have v: "validateExistingIndex existing indexName dimension
               (case metric_opt of None \<Rightarrow> ''cosine'' | Some m \<Rightarrow> m) s =
             (Inl (Error (''dimension or metric mismatch for index '' @ quoted indexName)), s, [])"
      using that by (simp add: validateExistingIndex_run assms(2))
    show ?thesis
      unfolding createIndex_existing [where validate = "validateExistingIndex existing", OF ex v] by simp
  qed
  have match: "createIndex (validateExistingIndex existing) be indexName dimension metric_opt s =
          (Inr (), s,
           [Call IndicesExists (JObj [(''index'', JStr indexName)]),
            Log Info (''Index '' @ quoted indexName @ '' already exists and is valid'') JUndefined])"
    if "existing = (dimension, metric)"
  proof -
    have v: "validateExistingIndex existing indexName dimension
               (case metric_opt of None \<Rightarrow> ''cosine'' | Some m \<Rightarrow> m) s = (Inr (), s, [])"
      using that by (simp add: validateExistingIndex_run assms(2))
    show ?thesis
      unfolding createIndex_existing [where validate = "validateExistingIndex existing", OF ex v] by simp
  qed
  have none: "calls_to IndicesCreate
          (events (createIndex (validateExistingIndex existing) be indexName dimension metric_opt s)) = []"
    using mismatch match by (cases "existing = (dimension, metric)") (simp_all add: events_def)
  have throws: "outcome (createIndex validate be indexName dimension metric_opt s) =
            Inl (Error (''Failed to create index '' @ quoted indexName @ '': '' @
                        ''Index '' @ quoted indexName @
                        '' exists but does not match the required configuration: '' @
                        error_message e))
          \<and> calls_to IndicesCreate (events (createIndex validate be indexName dimension metric_opt s)) =
              calls_to IndicesCreate evs"
    if "validate indexName dimension metric s = (Inl e, s1, evs)" for e s1 evs
    using createIndex_existing [where validate = validate, OF ex that [unfolded assms(2)]]
    by (simp add: outcome_def events_def calls_to_append)
  have returns: "outcome (createIndex validate be indexName dimension metric_opt s) = Inr ()
          \<and> calls_to IndicesCreate (events (createIndex validate be indexName dimension metric_opt s)) =
              calls_to IndicesCreate evs"
    if "validate indexName dimension metric s = (Inr (), s1, evs)" for s1 evs
    using createIndex_existing [where validate = validate, OF ex that [unfolded assms(2)]]
    by (simp add: outcome_def events_def calls_to_append)
  show ?thesis
    using mismatch match none throws returns by blast
qed

theorem createIndex_existing_index_witness:
  "client_exists sample_backend (JObj [(''index'', JStr ''memory'')]) = Inr True
   \<and> createIndex (validateExistingIndex (1536, ''cosine'')) sample_backend ''memory'' 768 None
        default_adapter =
       (Inl (Error (''Failed to create index '' @ quoted ''memory'' @ '': '' @
                    ''Index '' @ quoted ''memory'' @
                    '' exists but does not match the required configuration: '' @
                    ''dimension or metric mismatch for index '' @ quoted ''memory'')),
        default_adapter,
        [Call IndicesExists (JObj [(''index'', JStr ''memory'')]),
         Log Err (''Failed to create index '' @ quoted ''memory'' @ '': '' @
                  ''Index '' @ quoted ''memory'' @
                  '' exists but does not match the required configuration: '' @
                  ''dimension or metric mismatch for index '' @ quoted ''memory'') JUndefined])
   \<and> createIndex (validateExistingIndex (1536, ''cosine'')) sample_backend ''memory'' 1536
        (Some ''cosine'') default_adapter =
       (Inr (), default_adapter,
        [Call IndicesExists (JObj [(''index'', JStr ''memory'')]),
         Log Info (''Index '' @ quoted ''memory'' @ '' already exists and is valid'') JUndefined])
   \<and> calls_to IndicesCreate
        (events (createIndex (validateExistingIndex (1536, ''cosine'')) sample_backend ''memory'' 768 None
           default_adapter)) = []"
proof -
  have ex: "client_exists sample_backend (JObj [(''index'', JStr ''memory'')]) = Inr True"
    by (simp add: sample_backend_def)
  have m1: "''cosine'' = (case (None :: string option) of None \<Rightarrow> ''cosine'' | Some m \<Rightarrow> m)"
    by simp
  have m2: "''cosine'' = (case Some ''cosine'' of None \<Rightarrow> ''cosine'' | Some m \<Rightarrow> m)"
    by simp
  note differs = createIndex_existing_index [where existing = "(1536, ''cosine'')"
      and dimension = 768 and s = default_adapter, OF ex m1]
  note agrees = createIndex_existing_index [where existing = "(1536, ''cosine'')"
      and dimension = 1536 and s = default_adapter, OF ex m2]
  have ne: "(1536 :: int, ''cosine'') \<noteq> (768, ''cosine'')" by simp
  note a = differs [THEN conjunct1, THEN mp, OF ne]
  note b = agrees [THEN conjunct2, THEN conjunct1, THEN mp, OF refl]
  note c = differs [THEN conjunct2, THEN conjunct2, THEN conjunct1]
  show ?thesis
    using ex a b c by (intro conjI)
qed

subsection \<open>Upsert\<close>

lemma report_failures_run:
  assumes "failed = filter (\<lambda>item. truthy (item_error item)) (bulk_items response)"
    and "msg = ''Failed to upsert '' @ show_nat (length failed) @ ''/'' @
               show_nat (length vectors) @ '' vectors''"
    and "successful = filter (\<lambda>vid. JStr vid \<notin> set (map item_id failed)) vectorIds"
  shows "report_failures vectors vectorIds response s =
     (if successful = []
      then Inl (Error (msg @ ''. All operations failed. See logs for details.''))
      else Inr successful,
      s,
      [Console (msg @ ''. Sample errors:'') (JArr (map error_detail (take 3 failed))),
       Log Err msg
         (JObj [(''failedCount'', JNum (of_nat (length failed))),
                (''totalCount'', JNum (of_nat (length vectors))),
                (''sampleErrors'', JArr (map error_detail (take 3 failed)))])])"
  unfolding assms by (simp add: report_failures_def eff_defs Let_def)

lemma upsert_run:
  assumes "vectorIds = vector_ids now rnd vectors ids"
    and "req = bulk_request indexName vectorIds (case metadata_opt of None \<Rightarrow> [] | Some m \<Rightarrow> m) vectors"
    and "client_bulk be req = Inr response"
    and "report_failures vectors vectorIds response s = (r, s, evs)"
  shows "upsert now rnd be indexName vectors metadata_opt ids s =
     (if bulk_errors response then
        (case r of
           Inr successful \<Rightarrow> (Inr successful, s, Call Bulk req # evs)
         | Inl e \<Rightarrow>
             (Inl (Error (''Failed to upsert vectors to '' @ quoted indexName @ '': '' @ error_message e)),
              s,
              Call Bulk req # evs @
              [Log Err (''Failed to upsert vectors to '' @ quoted indexName @ '': '' @ error_message e)
                 JUndefined]))
      else
        (Inr vectorIds, s,
         [Call Bulk req,
          Log Info (''Successfully upserted '' @ show_nat (length vectors) @ '' vectors to '' @
                    quoted indexName) JUndefined]))"
  using assms(3,4) unfolding assms(1,2)
  by (cases r) (simp_all add: upsert_def Let_def bnd_def catch_def call_def logger_def ret_def throw_def)

lemma show_nat_digits: "show_nat (Suc 0) = ''1''" "show_nat (Suc (Suc 0)) = ''2''"
  by (simp_all add: show_nat.simps digit_char_def)

lemma duplicate_id_failed:
  "filter (\<lambda>item. truthy (item_error item)) (bulk_items duplicate_id_response) =
     [JObj [(''index'', JObj
        [(''_id'', JStr ''a''), (''status'', JNum 400),
         (''error'', JObj [(''type'', JStr ''mapper_parsing_exception''),
                           (''reason'', JStr ''failed to parse field [vector]'')])])]]"
  by (simp add: duplicate_id_response_def item_error_def opt_prop_def object_prototype_names_def)

lemma duplicate_id_report:
  "report_failures [v1, v2] [''a'', ''a''] duplicate_id_response s =
     (Inl (Error ''Failed to upsert 1/2 vectors. All operations failed. See logs for details.''), s,
      [Console ''Failed to upsert 1/2 vectors. Sample errors:''
         (JArr [JObj [(''id'', JStr ''a''), (''error'', JStr ''failed to parse field [vector]''),
                      (''type'', JStr ''mapper_parsing_exception'')]]),
       Log Err ''Failed to upsert 1/2 vectors''
         (JObj [(''failedCount'', JNum 1), (''totalCount'', JNum 2),
                (''sampleErrors'', JArr
                   [JObj [(''id'', JStr ''a''), (''error'', JStr ''failed to parse field [vector]''),
                          (''type'', JStr ''mapper_parsing_exception'')]])])])"
  unfolding report_failures_run [OF refl refl refl] duplicate_id_failed
  by (simp add: show_nat_digits item_id_def item_error_def error_detail_def opt_prop_def js_or_def)

text \<open>
  C1. The partial-failure contract of \<^verbatim>\<open>upsert\<close> (of N records of which M < N failed,
  return the N - M ids of the records that succeeded; throw only when all failed) does
  not hold at a batch with a repeated id. Two vectors are upserted with the ids
  \<^verbatim>\<open>a\<close>, \<^verbatim>\<open>a\<close>; the backend indexes the first and rejects the second, so N = 2
  and M = 1. \<^verbatim>\<open>upsert\<close> removes from the ids every occurrence of the id of a failed
  item, is left with no id and throws "Failed to upsert 1/2 vectors. All operations
  failed.", where the contract has it return the one id of the record that succeeded.
\<close>

theorem upsert_duplicate_ids_throws:
  "length (bulk_items duplicate_id_response) = 2
   \<and> length (filter (\<lambda>item. truthy (item_error item)) (bulk_items duplicate_id_response)) = 1
   \<and> outcome (upsert now rnd duplicate_id_backend ''memory'' [JArr [JNum 1, JNum 0], JArr [JNum 1]]
         None (Some [''a'', ''a'']) default_adapter) =
       Inl (Error (''Failed to upsert vectors to '' @ quoted ''memory'' @
                   '': Failed to upsert 1/2 vectors. All operations failed. See logs for details.''))"
proof -
  have b: "client_bulk duplicate_id_backend req = Inr duplicate_id_response" for req
    by (simp add: duplicate_id_backend_def)
  have e: "bulk_errors duplicate_id_response"
    by (simp add: duplicate_id_response_def)
  have ids: "[''a'', ''a''] = vector_ids now rnd [JArr [JNum 1, JNum 0], JArr [JNum 1]] (Some [''a'', ''a''])"
    by (simp add: vector_ids_def)
  note run = upsert_run [OF ids refl b duplicate_id_report, of "''memory''" None default_adapter]
  have "outcome (upsert now rnd duplicate_id_backend ''memory'' [JArr [JNum 1, JNum 0], JArr [JNum 1]]
         None (Some [''a'', ''a'']) default_adapter) =
       Inl (Error (''Failed to upsert vectors to '' @ quoted ''memory'' @
                   '': Failed to upsert 1/2 vectors. All operations failed. See logs for details.''))"
    unfolding run by (simp add: e outcome_def)
  moreover have "length (bulk_items duplicate_id_response) = 2"
    by (simp add: duplicate_id_response_def)
  moreover have "length (filter (\<lambda>item. truthy (item_error item)) (bulk_items duplicate_id_response)) = 1"
    by (simp add: duplicate_id_failed)
  ultimately show ?thesis by blast
qed

lemma kept_ids_aligned:
  assumes "length given = length items"
    and "map item_id items = map JStr given"
    and "distinct given"
  shows "filter (\<lambda>vid. JStr vid \<notin> set (map item_id (filter P items))) given =
           map fst (filter (\<lambda>p. \<not> P (snd p)) (zip given items))"
  using assms
proof (induction given items rule: list_induct2)
  case Nil
  then show ?case by simp
next
  case (Cons x xs it its)
  from Cons.prems have id: "item_id it = JStr x" and rest: "map item_id its = map JStr xs"
    and fresh: "x \<notin> set xs" and d: "distinct xs"
    by simp_all
  have sub: "set (map item_id (filter P its)) \<subseteq> JStr ` set xs"
  proof -
    have "set (map item_id (filter P its)) \<subseteq> set (map item_id its)" by auto
    then show ?thesis by (simp add: rest)
  qed
  have head_not_later: "JStr x \<notin> set (map item_id (filter P its))"
    using sub fresh by auto
  have tail: "filter (\<lambda>vid. JStr vid \<notin> set (map item_id (filter P (it # its)))) xs =
              filter (\<lambda>vid. JStr vid \<notin> set (map item_id (filter P its))) xs"
    using fresh by (intro filter_cong) (auto simp: id)
  show ?case
  proof (cases "P it")
    case True
    then show ?thesis
      using tail Cons.IH [OF rest d] by (simp add: id)
  next
    case False
    then show ?thesis
      using head_not_later Cons.IH [OF rest d] by simp
  qed
qed

lemma length_kept_ids:
  assumes "length given = length items"
  shows "length (filter (\<lambda>p. \<not> P (snd p)) (zip given items)) = length items - length (filter P items)"
  using assms
proof (induction given items rule: list_induct2)
  case Nil
  then show ?case by simp
next
  case (Cons x xs it its)
  have le: "length (filter P its) \<le> length its" by simp
  show ?case
  proof (cases "P it")
    case True
    with Cons.IH show ?thesis by simp
  next
    case False
    with Cons.IH le show ?thesis by (simp add: Suc_diff_le)
  qed
qed

text \<open>
  The contract does hold for pairwise distinct ids. With distinct ids (the caller's or
  generated ones), one per vector, and an answer whose items carry the ids of the
  operations in order and whose flag \<^verbatim>\<open>errors\<close> says whether an item failed: there
  are as many records that did not fail as the number of vectors less the number of
  failed items; when fewer than all records failed, \<^verbatim>\<open>upsert\<close> returns their ids, in
  order; when all of a non-empty batch failed, it throws.
\<close>

lemma upsert_distinct_ids:
  assumes vid: "given = vector_ids now rnd vectors ids"
    and d: "distinct given" and n: "length vectors = length given"
    and resp: "client_bulk be
                 (bulk_request indexName given (case metadata_opt of None \<Rightarrow> [] | Some m \<Rightarrow> m) vectors) =
               Inr response"
    and aligned: "map item_id (bulk_items response) = map JStr given"
    and failed: "failed = filter (\<lambda>item. truthy (item_error item)) (bulk_items response)"
    and flag: "bulk_errors response = (failed \<noteq> [])"
    and kept: "kept = map fst (filter (\<lambda>p. \<not> truthy (item_error (snd p))) (zip given (bulk_items response)))"
  shows "length kept = length vectors - length failed"
    and "length failed < length vectors \<Longrightarrow>
           outcome (upsert now rnd be indexName vectors metadata_opt ids s) = Inr kept"
    and "vectors \<noteq> [] \<Longrightarrow> length failed = length vectors \<Longrightarrow>
           \<exists>e. outcome (upsert now rnd be indexName vectors metadata_opt ids s) = Inl e"
proof -
  let ?P = "\<lambda>item. truthy (item_error item)"
  have len: "length given = length (bulk_items response)"
    using aligned by (metis length_map)
  have succ: "filter (\<lambda>vid. JStr vid \<notin> set (map item_id failed)) given = kept"
    unfolding failed kept by (rule kept_ids_aligned [OF len aligned d])
  show count: "length kept = length vectors - length failed"
    unfolding kept failed using length_kept_ids [OF len, of ?P] by (simp add: n len)
  note rep = report_failures_run [where vectors = vectors and s = s, OF failed refl succ [symmetric]]
  note run = upsert_run [where indexName = indexName, OF vid refl resp rep]
  {
    assume lt: "length failed < length vectors"
    then have ne: "kept \<noteq> []" using count by auto
    show "outcome (upsert now rnd be indexName vectors metadata_opt ids s) = Inr kept"
    proof (cases "failed = []")
      case True
      then have "kept = given"
        using succ by simp
      then show ?thesis
        unfolding run using True flag by (simp add: outcome_def)
    next
      case False
      then show ?thesis
        unfolding run using flag ne by (simp add: outcome_def)
    qed
  }
  {
    assume ne: "vectors \<noteq> []" and all: "length failed = length vectors"
    then have "failed \<noteq> []" by auto
    moreover have "kept = []" using count all by simp
    ultimately show "\<exists>e. outcome (upsert now rnd be indexName vectors metadata_opt ids s) = Inl e"
      unfolding run using flag by (simp add: outcome_def)
  }
qed

text \<open>
  Generated ids are pairwise distinct, whatever the clock and the random suffixes: the
  index of the vector is part of the id, between the first two underscores after the
  prefix. So the contract holds whenever the caller leaves the ids out.
\<close>

lemma digit_char_cases:
  assumes "d < 10"
  shows "digit_value (digit_char d) = d \<and> digit_char d \<noteq> CHR ''_''"
proof -
  from assms have "d = 0 \<or> d = 1 \<or> d = 2 \<or> d = 3 \<or> d = 4 \<or> d = 5 \<or> d = 6
      \<or> d = 7 \<or> d = 8 \<or> d = 9"
    by arith
  then show ?thesis
    by (elim disjE) (simp_all add: digit_char_def)
qed

lemma read_nat_snoc: "read_nat (cs @ [c]) = 10 * read_nat cs + digit_value c"
  by (simp add: read_nat_def)

lemma read_show_nat: "read_nat (show_nat n) = n"
proof (induction n rule: show_nat.induct)
  case (1 n)
  show ?case
  proof (cases "n < 10")
    case True
    then show ?thesis
      using digit_char_cases [of n] by (simp add: show_nat.simps [of n] read_nat_def)
  next
    case False
    have "n mod 10 < 10" by simp
    then have "digit_value (digit_char (n mod 10)) = n mod 10"
      using digit_char_cases by blast
    with False 1 show ?thesis
      by (simp add: show_nat.simps [of n] read_nat_snoc del: digit_value.simps)
  qed
qed

lemma show_nat_inj: "show_nat m = show_nat n \<Longrightarrow> m = n"
  by (metis read_show_nat)

lemma show_nat_no_underscore: "CHR ''_'' \<notin> set (show_nat n)"
proof (induction n rule: show_nat.induct)
  case (1 n)
  show ?case
  proof (cases "n < 10")
    case True
    then show ?thesis
      using digit_char_cases [of n] by (auto simp: show_nat.simps [of n])
  next
    case False
    have "n mod 10 < 10" by simp
    then have "digit_char (n mod 10) \<noteq> CHR ''_''"
      using digit_char_cases by blast
    with False 1 show ?thesis
      by (auto simp: show_nat.simps [of n])
  qed
qed

lemma split_at_underscore:
  assumes "CHR ''_'' \<notin> set a" "CHR ''_'' \<notin> set b" "a @ CHR ''_'' # x = b @ CHR ''_'' # y"
  shows "a = b \<and> x = y"
  using assms
proof (induction a arbitrary: b)
  case Nil
  then show ?case by (cases b) auto
next
  case (Cons c a)
  then show ?case by (cases b) auto
qed

lemma generated_id_inj:
  assumes "generated_id now rnd i = generated_id now rnd j"
  shows "i = j"
proof -
  from assms have
    "show_nat (now i) @ CHR ''_'' # (show_nat i @ CHR ''_'' # rnd i) =
     show_nat (now j) @ CHR ''_'' # (show_nat j @ CHR ''_'' # rnd j)"
    by (simp add: generated_id_def)
  then have "show_nat i @ CHR ''_'' # rnd i = show_nat j @ CHR ''_'' # rnd j"
    using split_at_underscore [OF show_nat_no_underscore show_nat_no_underscore] by blast
  then have "show_nat i = show_nat j"
    using split_at_underscore [OF show_nat_no_underscore show_nat_no_underscore] by blast
  then show ?thesis by (rule show_nat_inj)
qed

lemma generated_ids_distinct: "distinct (map (generated_id now rnd) [0..<n])"
  by (simp add: distinct_map inj_on_def) (meson generated_id_inj)

lemma upsert_generated_ids:
  assumes given: "given = map (generated_id now rnd) [0..<length vectors]"
    and resp: "client_bulk be
                 (bulk_request indexName given (case metadata_opt of None \<Rightarrow> [] | Some m \<Rightarrow> m) vectors) =
               Inr response"
    and aligned: "map item_id (bulk_items response) = map JStr given"
    and failed: "failed = filter (\<lambda>item. truthy (item_error item)) (bulk_items response)"
    and flag: "bulk_errors response = (failed \<noteq> [])"
    and kept: "kept = map fst (filter (\<lambda>p. \<not> truthy (item_error (snd p))) (zip given (bulk_items response)))"
  shows "length kept = length vectors - length failed"
    and "length failed < length vectors \<Longrightarrow>
           outcome (upsert now rnd be indexName vectors metadata_opt None s) = Inr kept"
    and "vectors \<noteq> [] \<Longrightarrow> length failed = length vectors \<Longrightarrow>
           \<exists>e. outcome (upsert now rnd be indexName vectors metadata_opt None s) = Inl e"
proof -
  have vid: "given = vector_ids now rnd vectors None"
    by (simp add: given vector_ids_def)
  have d: "distinct given"
    unfolding given by (rule generated_ids_distinct)
  have n: "length vectors = length given"
    by (simp add: given)
  note all = upsert_distinct_ids [OF vid d n resp aligned failed flag kept]
  show "length kept = length vectors - length failed"
    by (rule all(1))
  show "length failed < length vectors \<Longrightarrow>
           outcome (upsert now rnd be indexName vectors metadata_opt None s) = Inr kept"
    by (rule all(2))
  show "vectors \<noteq> [] \<Longrightarrow> length failed = length vectors \<Longrightarrow>
           \<exists>e. outcome (upsert now rnd be indexName vectors metadata_opt None s) = Inl e"
    by (rule all(3))
qed

end
